theory Spec2Isabelle
  imports Main
begin

section \<open>Provider results as the scan processor holds them\<close>

text \<open>
  The processor keeps every provider's result in an untyped variable. Two kinds of value
  reach the scoring code: the provider's own payload, and a status object that the
  processor (or the VirusTotal client) builds itself:
  \<^verbatim>\<open>{ error: msg }\<close>, \<^verbatim>\<open>{ skipped: true, reason }\<close> or
  \<^verbatim>\<open>{ error: msg, skipped: true, reason: "VirusTotal scan failed" }\<close>.
  \<open>Status_obj e s r\<close> is such an object with its \<open>error\<close>, \<open>skipped\<close> and
  \<open>reason\<close> properties (\<open>None\<close> and \<open>False\<close> where the property is absent).
  A variable that was never assigned a value (\<open>undefined\<close>) is \<open>None\<close> at the
  level of the bundle.
\<close>

datatype 'p outcome =
    Payload 'p
  | Status_obj "string option" bool "string option"

text \<open>
  JavaScript truthiness of \<^verbatim>\<open>result.error\<close>. On a status object it is the
  truthiness of the message: a non-empty string. On a payload the same property is looked
  up in the payload itself; \<open>payload_error\<close> says what that lookup finds for the
  provider's payload type.
\<close>

fun error_truthy :: "('p \<Rightarrow> bool) \<Rightarrow> 'p outcome \<Rightarrow> bool" where
  "error_truthy payload_error (Payload p) = payload_error p"
| "error_truthy payload_error (Status_obj None s r) = False"
| "error_truthy payload_error (Status_obj (Some msg) s r) = (msg \<noteq> [])"

text \<open>The static analyser's report: \<open>appsec\<close> with its severity-tagged lists.\<close>

record finding =
  title :: string
  description :: string

record appsec =
  high :: "finding list option"
  medium :: "finding list option"
  low :: "finding list option"

record mobsf_report =
  appsec :: "appsec option"

text \<open>The AV aggregator's payload: one entry per engine.\<close>

record engine_result =
  category :: string

type_synonym vt_results = "(string \<times> engine_result) list"

text \<open>
  \<^verbatim>\<open>results.virustotal.error\<close> on the engine map: the entry of the engine named
  \<open>error\<close>, an object and therefore truthy, when there is one.
\<close>

definition vt_error :: "vt_results \<Rightarrow> bool" where
  "vt_error engines = (''error'' \<in> set (map fst engines))"

text \<open>The reputation service's payload: \<open>scan_details\<close>, one entry per engine.\<close>

record scan_detail =
  threat_found :: string

record md_results =
  scan_details :: "(string \<times> scan_detail) list option"

text \<open>The scan results have no property \<open>error\<close>: the lookup gives \<open>undefined\<close>.\<close>

definition md_error :: "md_results \<Rightarrow> bool" where
  "md_error res = False"

text \<open>The sandbox's summary: a verdict and a list of threats.\<close>

record ha_report =
  verdict :: "string option"
  threats :: "string list option"

text \<open>The summary has no property \<open>error\<close> either.\<close>

definition ha_error :: "ha_report \<Rightarrow> bool" where
  "ha_error rep = False"

record results =
  mobsf :: "mobsf_report outcome option"
  virustotal :: "vt_results outcome option"
  metadefender :: "md_results outcome option"
  hybridAnalysis :: "ha_report outcome option"

section \<open>The scoring engine\<close>

text \<open>
  \<^verbatim>\<open>const { high = [], medium = [], low = [] } = results.mobsf.appsec\<close>:
  an absent list is the empty list.
\<close>

definition or_empty :: "'a list option \<Rightarrow> 'a list" where
  "or_empty xs = (case xs of None \<Rightarrow> [] | Some ys \<Rightarrow> ys)"

text \<open>
  \<^verbatim>\<open>results.mobsf?.appsec\<close>: the property of the report; a status object has
  no such property.
\<close>

fun mobsf_appsec :: "mobsf_report outcome option \<Rightarrow> appsec option" where
  "mobsf_appsec None = None"
| "mobsf_appsec (Some (Payload rep)) = appsec rep"
| "mobsf_appsec (Some (Status_obj e s r)) = None"

text \<open>
  \<^verbatim>\<open>Object.values(results.virustotal).filter(r => r.category === "malicious").length\<close>.
  The values of a status object are strings and booleans, whose \<open>category\<close> is
  \<open>undefined\<close>: none of them is counted.
\<close>

fun vt_maliciousCount :: "vt_results outcome \<Rightarrow> nat" where
  "vt_maliciousCount (Payload engines) =
     length (filter (\<lambda>r. category r = ''malicious'') (map snd engines))"
| "vt_maliciousCount (Status_obj e s r) = 0"

text \<open>
  \<^verbatim>\<open>results.metadefender.scan_details
     ? Object.values(scan_details).filter(d => d.threat_found).length : 0\<close>.
\<close>

fun md_scan_details :: "md_results outcome \<Rightarrow> (string \<times> scan_detail) list option" where
  "md_scan_details (Payload res) = scan_details res"
| "md_scan_details (Status_obj e s r) = None"

definition md_maliciousCount :: "md_results outcome \<Rightarrow> nat" where
  "md_maliciousCount md =
     (case md_scan_details md of
        None \<Rightarrow> 0
      | Some details \<Rightarrow> length (filter (\<lambda>d. threat_found d \<noteq> []) (map snd details)))"

text \<open>\<^verbatim>\<open>const { verdict, threats = [] } = results.hybridAnalysis\<close>.\<close>

fun ha_verdict :: "ha_report outcome \<Rightarrow> string option" where
  "ha_verdict (Payload rep) = verdict rep"
| "ha_verdict (Status_obj e s r) = None"

fun ha_threats :: "ha_report outcome \<Rightarrow> string list" where
  "ha_threats (Payload rep) = or_empty (threats rep)"
| "ha_threats (Status_obj e s r) = []"

definition score_mobsf :: "results \<Rightarrow> int \<Rightarrow> int" where
  "score_mobsf res score =
     (case mobsf_appsec (mobsf res) of
        None \<Rightarrow> score
      | Some a \<Rightarrow>
          score - int (length (or_empty (high a))) * 10
                - int (length (or_empty (medium a))) * 5
                - int (length (or_empty (low a))) * 2)"

definition score_virustotal :: "results \<Rightarrow> int \<Rightarrow> int" where
  "score_virustotal res score =
     (case virustotal res of
        None \<Rightarrow> score
      | Some vt \<Rightarrow>
          if \<not> error_truthy vt_error vt
            then score - int (vt_maliciousCount vt) * 5 else score)"

definition score_metadefender :: "results \<Rightarrow> int \<Rightarrow> int" where
  "score_metadefender res score =
     (case metadefender res of
        None \<Rightarrow> score
      | Some md \<Rightarrow>
          if \<not> error_truthy md_error md
            then score - int (md_maliciousCount md) * 5 else score)"

definition score_hybridAnalysis :: "results \<Rightarrow> int \<Rightarrow> int" where
  "score_hybridAnalysis res score =
     (case hybridAnalysis res of
        None \<Rightarrow> score
      | Some ha \<Rightarrow>
          if \<not> error_truthy ha_error ha then
            (if ha_verdict ha = Some ''malicious'' then score - 20
             else if ha_verdict ha = Some ''suspicious'' then score - 10
             else score) - int (length (ha_threats ha)) * 3
          else score)"

text \<open>
  \<open>calculateTFScore\<close>: the four blocks run in the source's order on the running score,
  which starts at 100; the result is \<^verbatim>\<open>Math.max(0, Math.min(100, score))\<close>.
\<close>

definition calculateTFScore :: "results \<Rightarrow> int" where
  "calculateTFScore res =
     max 0 (min 100
       (score_hybridAnalysis res
         (score_metadefender res
           (score_virustotal res
             (score_mobsf res 100)))))"

text \<open>
  \<open>generateRecommendations\<close>: the strings are pushed in the source's order. The
  VirusTotal block has no guard on \<open>error\<close>; the MetaDefender block reads
  \<^verbatim>\<open>scanResults.metadefender?.scan_details\<close>; the sandbox block only looks at a
  malicious verdict.
\<close>

definition nonempty_opt :: "'a list option \<Rightarrow> bool" where
  "nonempty_opt xs = (case xs of None \<Rightarrow> False | Some ys \<Rightarrow> ys \<noteq> [])"

definition recs_mobsf :: "results \<Rightarrow> string list" where
  "recs_mobsf res =
     (case mobsf_appsec (mobsf res) of
        None \<Rightarrow> []
      | Some a \<Rightarrow>
          (if nonempty_opt (high a)
             then [''Fix high-severity vulnerabilities immediately.''] else []) @
          (if nonempty_opt (medium a)
             then [''Review and address medium-severity vulnerabilities.''] else []) @
          (if nonempty_opt (low a)
             then [''Follow best practices to address low-severity issues.''] else []))"

definition recs_virustotal :: "results \<Rightarrow> string list" where
  "recs_virustotal res =
     (case virustotal res of
        None \<Rightarrow> []
      | Some vt \<Rightarrow>
          if vt_maliciousCount vt > 0
            then [''Investigate files flagged as malicious by VirusTotal.''] else [])"

definition recs_metadefender :: "results \<Rightarrow> string list" where
  "recs_metadefender res =
     (case metadefender res of
        None \<Rightarrow> []
      | Some md \<Rightarrow>
          (case md_scan_details md of
             None \<Rightarrow> []
           | Some details \<Rightarrow>
               if length (filter (\<lambda>d. threat_found d \<noteq> []) (map snd details)) > 0
                 then [''Review threats identified by MetaDefender.''] else []))"

definition recs_hybridAnalysis :: "results \<Rightarrow> string list" where
  "recs_hybridAnalysis res =
     (case hybridAnalysis res of
        None \<Rightarrow> []
      | Some ha \<Rightarrow>
          if ha_verdict ha = Some ''malicious''
            then [''Take immediate action on malicious findings from Hybrid Analysis.'']
            else [])"

definition generateRecommendations :: "results \<Rightarrow> string list" where
  "generateRecommendations res =
     recs_mobsf res @ recs_virustotal res @ recs_metadefender res @ recs_hybridAnalysis res"

section \<open>Polling a provider for a result\<close>

text \<open>
  A poll script gives the provider's answer to each request: \<open>script n\<close> is what the
  \<open>n\<close>-th request (counted from 1) meets. Each poll function returns its result together with
  the number of requests it made. An exception is the \<open>Inl\<close> of its message.
\<close>

subsection \<open>\<open>pollVirusTotalResults\<close>\<close>

text \<open>
  \<open>Vt_rejected msg\<close>: the request threw (a network error, or a response without the
  expected fields). \<open>Vt_status st res\<close>: the analysis status and the \<open>results\<close>
  attribute of the response.
\<close>

datatype 'p vt_poll =
    Vt_rejected string
  | Vt_status string 'p

definition vt_maxAttempts :: nat where
  "vt_maxAttempts = 30"

text \<open>
  The whole loop body is inside \<^verbatim>\<open>try\<close>, so the error thrown on the status
  \<open>failed\<close> reaches the \<^verbatim>\<open>catch\<close> of the same iteration, like a rejected
  request: the handler rethrows (as a timeout) only when the attempts are used up, and
  otherwise waits and lets the loop go on. A status that is none of the four known ones
  falls through to the next iteration.
\<close>

function poll_vt_loop :: "(nat \<Rightarrow> 'p vt_poll) \<Rightarrow> nat \<Rightarrow> (string + 'p) \<times> nat" where
  "poll_vt_loop script attempts =
     (if attempts < vt_maxAttempts then
        (case script (attempts + 1) of
           Vt_rejected msg \<Rightarrow>
             if attempts + 1 \<ge> vt_maxAttempts
               then (Inl (''VirusTotal scan timed out after 30 attempts: '' @ msg), attempts + 1)
               else poll_vt_loop script (attempts + 1)
         | Vt_status status res \<Rightarrow>
             if status = ''completed'' then (Inr res, attempts + 1)
             else if status = ''queued'' \<or> status = ''in-progress''
               then poll_vt_loop script (attempts + 1)
             else if status = ''failed'' then
               (if attempts + 1 \<ge> vt_maxAttempts
                  then (Inl (''VirusTotal scan timed out after 30 attempts: '' @
                             ''VirusTotal analysis failed''), attempts + 1)
                  else poll_vt_loop script (attempts + 1))
             else poll_vt_loop script (attempts + 1))
      else (Inl ''VirusTotal scan timed out after 30 attempts'', attempts))"
  by pat_completeness auto
termination
  by (relation "measure (\<lambda>(script, attempts). vt_maxAttempts - attempts)") auto

declare poll_vt_loop.simps [simp del]

definition pollVirusTotalResults :: "(nat \<Rightarrow> 'p vt_poll) \<Rightarrow> (string + 'p) \<times> nat" where
  "pollVirusTotalResults script = poll_vt_loop script 0"

subsection \<open>\<open>pollMobSFScanLogs\<close>\<close>

text \<open>
  A log entry is a string or an object. Its timestamp is
  \<^verbatim>\<open>lastLog.split(" - ")[0]\<close> for a string and the \<open>timestamp\<close> property for an
  object (\<open>None\<close> when it has none); its text is the string itself, or
  \<^verbatim>\<open>JSON.stringify(lastLog)\<close>, carried here by the object.
\<close>

datatype log_entry =
    Log_string string
  | Log_object "string option" string

datatype logs_response =
    Logs_rejected string
  | Logs_invalid
  | Logs "log_entry list"

fun before_separator :: "string \<Rightarrow> string" where
  "before_separator [] = []"
| "before_separator (c # cs) =
     (if take 3 (c # cs) = '' - '' then [] else c # before_separator cs)"

fun str_includes :: "string \<Rightarrow> string \<Rightarrow> bool" where
  "str_includes [] sub = (sub = [])"
| "str_includes (c # cs) sub = (take (length sub) (c # cs) = sub \<or> str_includes cs sub)"

definition lower_char :: "char \<Rightarrow> char" where
  "lower_char c =
     (if 65 \<le> (of_char c :: nat) \<and> (of_char c :: nat) \<le> 90
        then char_of ((of_char c :: nat) + 32) else c)"

definition toLowerCase :: "string \<Rightarrow> string" where
  "toLowerCase s = map lower_char s"

fun log_timestamp :: "log_entry \<Rightarrow> string option" where
  "log_timestamp (Log_string s) = Some (before_separator s)"
| "log_timestamp (Log_object ts js) = ts"

fun log_text :: "log_entry \<Rightarrow> string" where
  "log_text (Log_string s) = s"
| "log_text (Log_object ts js) = js"

definition completion_indicator :: "string \<Rightarrow> bool" where
  "completion_indicator lastLogLower =
     (str_includes lastLogLower ''scan completed'' \<or>
      str_includes lastLogLower ''scan finished'' \<or>
      str_includes lastLogLower ''scan done'' \<or>
      str_includes lastLogLower ''saving to database'' \<or>
      str_includes lastLogLower ''static analyzer completed'')"

definition failure_indicator :: "string \<Rightarrow> bool" where
  "failure_indicator lastLogLower =
     (str_includes lastLogLower ''scan failed'' \<or> str_includes lastLogLower ''error'')"

definition mobsf_maxAttempts :: nat where
  "mobsf_maxAttempts = 60"

text \<open>
  The loop carries \<open>attempts\<close> and \<open>lastLogTimestamp\<close>. The failure indicator throws
  inside the \<^verbatim>\<open>try\<close> after \<open>lastLogTimestamp\<close> has been updated, and the
  \<^verbatim>\<open>catch\<close> of the same iteration handles it like any other error.
\<close>

function poll_mobsf_loop ::
  "(nat \<Rightarrow> logs_response) \<Rightarrow> nat \<Rightarrow> string option \<Rightarrow> (string + log_entry list) \<times> nat"
where
  "poll_mobsf_loop script attempts lastLogTimestamp =
     (if attempts < mobsf_maxAttempts then
        (case script (attempts + 1) of
           Logs_rejected msg \<Rightarrow>
             if attempts + 1 \<ge> mobsf_maxAttempts
               then (Inl (''MobSF scan timed out after 60 attempts: '' @ msg), attempts + 1)
               else poll_mobsf_loop script (attempts + 1) lastLogTimestamp
         | Logs_invalid \<Rightarrow>
             if attempts + 1 \<ge> mobsf_maxAttempts
               then (Inl (''MobSF scan timed out after 60 attempts: '' @
                          ''Invalid logs response format''), attempts + 1)
               else poll_mobsf_loop script (attempts + 1) lastLogTimestamp
         | Logs logs \<Rightarrow>
             if logs = [] then poll_mobsf_loop script (attempts + 1) lastLogTimestamp
             else if log_timestamp (last logs) = lastLogTimestamp
               then poll_mobsf_loop script (attempts + 1) lastLogTimestamp
             else if completion_indicator (toLowerCase (log_text (last logs)))
               then (Inr logs, attempts + 1)
             else if failure_indicator (toLowerCase (log_text (last logs))) then
               (if attempts + 1 \<ge> mobsf_maxAttempts
                  then (Inl (''MobSF scan timed out after 60 attempts: '' @
                             ''Scan failed: '' @ log_text (last logs)), attempts + 1)
                  else poll_mobsf_loop script (attempts + 1) (log_timestamp (last logs)))
             else poll_mobsf_loop script (attempts + 1) (log_timestamp (last logs)))
      else (Inl ''MobSF scan timed out after 60 attempts'', attempts))"
  by pat_completeness auto
termination
  by (relation "measure (\<lambda>(script, attempts, ts). mobsf_maxAttempts - attempts)") auto

declare poll_mobsf_loop.simps [simp del]

definition pollMobSFScanLogs ::
  "(nat \<Rightarrow> logs_response) \<Rightarrow> (string + log_entry list) \<times> nat" where
  "pollMobSFScanLogs script = poll_mobsf_loop script 0 (Some [])"

section \<open>The job record, the queue and the worker's local storage\<close>

record job_data =
  scanId :: string
  userId :: string
  filePath :: string

text \<open>
  A row of the \<open>scans\<close> table, keyed by its \<open>scan_id\<close>. \<open>scan_status\<close> is free
  text in the schema; the nullable columns are options.
\<close>

record scan_row =
  user_id :: string
  file_name :: string
  file_url :: string
  scan_status :: string
  report_data :: "results option"
  tf_score :: "int option"
  pdf_report_url :: "string option"

datatype provider = MobSF | VirusTotal | MetaDefender | HybridAnalysis

text \<open>
  The order of the provider calls is kept as a trace: \<open>Dispatched p\<close> when the call to
  provider \<open>p\<close> is made, \<open>Settled p\<close> when its \<^verbatim>\<open>await\<close> has returned or thrown,
  \<open>Assembled\<close> when \<open>combinedResults\<close> is built.
\<close>

datatype event = Dispatched provider | Settled provider | Assembled

text \<open>
  \<open>temp\<close> maps each existing temporary directory to the files in it; \<open>pdf_reports\<close> is
  the report bucket of the object store.
\<close>

record world =
  scans :: "string \<rightharpoonup> scan_row"
  queue :: "job_data list"
  temp :: "string \<rightharpoonup> string list"
  pdf_reports :: "string \<rightharpoonup> string"
  trace :: "event list"

text \<open>\<^verbatim>\<open>.from("scans").update(fields).eq("scan_id", id)\<close>, when the store applies it.\<close>

definition update_scan :: "string \<Rightarrow> (scan_row \<Rightarrow> scan_row) \<Rightarrow> world \<Rightarrow> world" where
  "update_scan sid f w =
     (case scans w sid of
        None \<Rightarrow> w
      | Some row \<Rightarrow> w\<lparr>scans := (scans w)(sid \<mapsto> f row)\<rparr>)"

subsection \<open>Paths\<close>

definition path_join :: "string \<Rightarrow> string \<Rightarrow> string" where
  "path_join a b = a @ ''/'' @ b"

definition basename :: "string \<Rightarrow> string" where
  "basename p = rev (takeWhile (\<lambda>c. c \<noteq> CHR ''/'') (rev p))"

text \<open>
  \<open>extname\<close>: from the last dot of the base name, or empty when there is no dot or the
  only dot starts the name.
\<close>

definition extname :: "string \<Rightarrow> string" where
  "extname p =
     (let b = basename p; e = takeWhile (\<lambda>c. c \<noteq> CHR ''.'') (rev b)
      in if length e = length b \<or> length e + 1 = length b then [] else ''.'' @ rev e)"

definition basename_without :: "string \<Rightarrow> string \<Rightarrow> string" where
  "basename_without p ext =
     (let b = basename p
      in if ext \<noteq> [] \<and> length ext < length b \<and> drop (length b - length ext) b = ext
           then take (length b - length ext) b else b)"

text \<open>\<^verbatim>\<open>filePath.replace(/^app-uploads\//, "")\<close>.\<close>

definition strip_bucket :: "string \<Rightarrow> string" where
  "strip_bucket p = (if take 12 p = ''app-uploads/'' then drop 12 p else p)"

section \<open>The scan processor\<close>

text \<open>
  Everything outside the processor is an input of the model: what each external call
  returns or throws in this run. \<open>Inl msg\<close> and \<open>Some msg\<close> in a \<open>_throws\<close> field are an
  exception with that message. The provider clients return untyped values: a payload, a
  status object or \<open>undefined\<close>.
\<close>

record pdf_input =
  pdf_scanId :: string
  pdf_fileName :: string
  pdf_tfScore :: int
  pdf_findings :: results
  pdf_reportData :: mobsf_report

record processor_env =
  cwd :: string
  mkdir_throws :: "string option"
  getPublicUrl :: "string \<Rightarrow> string option"
  axios_get :: "string \<Rightarrow> string + (nat \<times> string)"
  writeFile_throws :: "string option"
  runMobSFScan :: "string \<Rightarrow> string + mobsf_report"
  runVirusTotalScan :: "string \<Rightarrow> string + vt_results outcome option"
  runMetaDefenderScan :: "string \<Rightarrow> string + md_results outcome option"
  runHybridAnalysisScan :: "string \<Rightarrow> string + ha_report outcome option"
  generatePDFReport :: "pdf_input \<Rightarrow> string + string"
  pdfUploadError :: bool
  updateError :: bool
  rm_throws :: "string option"
  failed_write_error :: bool

text \<open>
  The first part of the \<^verbatim>\<open>try\<close> block: the temporary directory is made and the
  uploaded file is downloaded into it. On success the result is the directory and the
  local file path.
\<close>

definition fetch_file ::
  "processor_env \<Rightarrow> job_data \<Rightarrow> world \<Rightarrow> (string + string \<times> string) \<times> world" where
  "fetch_file env job w =
     (if scanId job = [] then (Inl ''Invalid scanId'', w)
      else
        let tempDir = path_join (path_join (cwd env) ''temp'') (scanId job) in
        case mkdir_throws env of
          Some msg \<Rightarrow> (Inl msg, w)
        | None \<Rightarrow>
            let w1 = w\<lparr>temp := (temp w)(tempDir \<mapsto> or_empty (temp w tempDir))\<rparr> in
            case getPublicUrl env (strip_bucket (filePath job)) of
              None \<Rightarrow> (Inl ''Failed to get public URL for file'', w1)
            | Some publicUrl \<Rightarrow>
                if publicUrl = [] then (Inl ''Failed to get public URL for file'', w1)
                else
                  case axios_get env publicUrl of
                    Inl msg \<Rightarrow> (Inl msg, w1)
                  | Inr (status, body) \<Rightarrow>
                      if status \<noteq> 200 then (Inl ''Failed to download file'', w1)
                      else
                        let localFilePath = path_join tempDir (basename (filePath job)) in
                        case writeFile_throws env of
                          Some msg \<Rightarrow> (Inl msg, w1)
                        | None \<Rightarrow>
                            (Inr (tempDir, localFilePath),
                             w1\<lparr>temp := (temp w1)
                                  (tempDir \<mapsto> or_empty (temp w1 tempDir) @ [localFilePath])\<rparr>))"

text \<open>
  \<^verbatim>\<open>try { x = await run(localFilePath) } catch (e) { x = { error: e.message } }\<close>.
  A value that the client returns is kept as it is. That includes the object
  \<^verbatim>\<open>{ error, skipped: true, reason: "VirusTotal scan failed" }\<close>, which
  \<open>runVirusTotalScan\<close> returns from its own \<^verbatim>\<open>catch\<close> instead of throwing.
\<close>

definition settle :: "string + 'p outcome option \<Rightarrow> 'p outcome option" where
  "settle r = (case r of Inr v \<Rightarrow> v | Inl msg \<Rightarrow> Some (Status_obj (Some msg) False None))"

text \<open>
  The three optional providers, each called and awaited in its own \<^verbatim>\<open>try\<close>, one
  after the other.
\<close>

definition run_optional ::
  "processor_env \<Rightarrow> string \<Rightarrow> mobsf_report \<Rightarrow> world \<Rightarrow> results \<times> world" where
  "run_optional env localFilePath mobsfResult w =
     (let w1 = w\<lparr>trace := trace w @ [Dispatched VirusTotal]\<rparr>;
          virusTotalResult = settle (runVirusTotalScan env localFilePath);
          w2 = w1\<lparr>trace := trace w1 @ [Settled VirusTotal]\<rparr>;
          w3 = w2\<lparr>trace := trace w2 @ [Dispatched MetaDefender]\<rparr>;
          metaDefenderResult = settle (runMetaDefenderScan env localFilePath);
          w4 = w3\<lparr>trace := trace w3 @ [Settled MetaDefender]\<rparr>;
          w5 = w4\<lparr>trace := trace w4 @ [Dispatched HybridAnalysis]\<rparr>;
          hybridAnalysisResult = settle (runHybridAnalysisScan env localFilePath);
          w6 = w5\<lparr>trace := trace w5 @ [Settled HybridAnalysis]\<rparr>
      in (\<lparr> mobsf = Some (Payload mobsfResult),
            virustotal = virusTotalResult,
            metadefender = metaDefenderResult,
            hybridAnalysis = hybridAnalysisResult \<rparr>,
          w6\<lparr>trace := trace w6 @ [Assembled]\<rparr>))"

text \<open>
  The rest of the \<^verbatim>\<open>try\<close> block: score, report, upload, the write of the
  completed record, and the removal of the temporary directory.
\<close>

definition finish_scan ::
  "processor_env \<Rightarrow> job_data \<Rightarrow> string \<Rightarrow> mobsf_report \<Rightarrow> results \<Rightarrow> world
     \<Rightarrow> (string + unit) \<times> world" where
  "finish_scan env job tempDir mobsfResult combinedResults w =
     (let tfScore = calculateTFScore combinedResults in
      case generatePDFReport env
             \<lparr> pdf_scanId = scanId job, pdf_fileName = basename (filePath job),
               pdf_tfScore = tfScore, pdf_findings = combinedResults,
               pdf_reportData = mobsfResult \<rparr> of
        Inl msg \<Rightarrow> (Inl msg, w)
      | Inr pdfBuffer \<Rightarrow>
          let reportFileName =
                basename_without (filePath job) (extname (filePath job)) @ ''_report.pdf'';
              pdfPath = userId job @ ''/'' @ scanId job @ ''/'' @ reportFileName
          in if pdfUploadError env then (Inl ''Failed to upload PDF report'', w)
             else
               let w1 = w\<lparr>pdf_reports := (pdf_reports w)(pdfPath \<mapsto> pdfBuffer)\<rparr>;
                   recommendations = generateRecommendations combinedResults
               in if updateError env then (Inl ''Failed to update scan record'', w1)
                  else
                    let w2 = update_scan (scanId job)
                               (\<lambda>row. row\<lparr> scan_status := ''completed'',
                                            tf_score := Some tfScore,
                                            pdf_report_url := Some pdfPath,
                                            report_data := Some combinedResults \<rparr>) w1
                    in case rm_throws env of
                         Some msg \<Rightarrow> (Inl msg, w2)
                       | None \<Rightarrow> (Inr (), w2\<lparr>temp := (temp w2)(tempDir := None)\<rparr>))"

definition processScan_try ::
  "processor_env \<Rightarrow> job_data \<Rightarrow> world \<Rightarrow> (string + unit) \<times> world" where
  "processScan_try env job w =
     (case fetch_file env job w of
        (Inl msg, w1) \<Rightarrow> (Inl msg, w1)
      | (Inr (tempDir, localFilePath), w1) \<Rightarrow>
          let w2 = w1\<lparr>trace := trace w1 @ [Dispatched MobSF]\<rparr> in
          case runMobSFScan env localFilePath of
            Inl msg \<Rightarrow> (Inl msg, w2\<lparr>trace := trace w2 @ [Settled MobSF]\<rparr>)
          | Inr mobsfResult \<Rightarrow>
              (case run_optional env localFilePath mobsfResult
                      (w2\<lparr>trace := trace w2 @ [Settled MobSF]\<rparr>) of
                 (combinedResults, w3) \<Rightarrow>
                   finish_scan env job tempDir mobsfResult combinedResults w3))"

text \<open>
  \<open>processScan\<close>: the \<^verbatim>\<open>catch\<close> writes the failed status, without looking at
  what the store answers, and rethrows.
\<close>

definition processScan ::
  "processor_env \<Rightarrow> job_data \<Rightarrow> world \<Rightarrow> (string + unit) \<times> world" where
  "processScan env job w =
     (case processScan_try env job w of
        (Inr u, w1) \<Rightarrow> (Inr u, w1)
      | (Inl msg, w1) \<Rightarrow>
          (Inl msg,
           if failed_write_error env then w1
           else update_scan (scanId job) (\<lambda>row. row\<lparr>scan_status := ''failed''\<rparr>) w1))"

section \<open>The retry operation of the scan service\<close>

datatype http_exception =
    NotFoundException string
  | BadRequestException string
  | InternalServerErrorException string
  | Rejected string

record service_env =
  select_error :: bool
  queue_add_throws :: "string option"
  status_update_error :: bool

record retry_reply =
  message :: string
  reply_scanId :: string

text \<open>
  \<^verbatim>\<open>.select("*").eq("scan_id", scanId).eq("user_id", userId).single()\<close>
\<close>

definition select_scan :: "string \<Rightarrow> string \<Rightarrow> world \<Rightarrow> scan_row option" where
  "select_scan sid uid w =
     (case scans w sid of
        None \<Rightarrow> None
      | Some row \<Rightarrow> if user_id row = uid then Some row else None)"

definition retryScan ::
  "service_env \<Rightarrow> string \<Rightarrow> string \<Rightarrow> world \<Rightarrow> (http_exception + retry_reply) \<times> world" where
  "retryScan env sid uid w =
     (case (if select_error env then None else select_scan sid uid w) of
        None \<Rightarrow> (Inl (NotFoundException ''Scan not found''), w)
      | Some scan \<Rightarrow>
          if scan_status scan \<noteq> ''failed''
            then (Inl (BadRequestException ''Only failed scans can be retried''), w)
          else
            case queue_add_throws env of
              Some msg \<Rightarrow> (Inl (Rejected msg), w)
            | None \<Rightarrow>
                let w1 = w\<lparr>queue := queue w @
                            [\<lparr> scanId = sid, userId = user_id scan, filePath = file_url scan \<rparr>]\<rparr>
                in if status_update_error env
                     then (Inl (InternalServerErrorException ''Failed to update scan status''), w1)
                     else (Inr \<lparr> message = ''Scan retry initiated successfully'',
                                 reply_scanId = sid \<rparr>,
                           update_scan sid (\<lambda>row. row\<lparr>scan_status := ''retrying''\<rparr>) w1))"

section \<open>Orders of provider calls\<close>

text \<open>
  A fan-out/fan-in run dispatches every optional provider before it awaits any of them:
  in its trace, no optional provider is dispatched once an optional provider has settled.
\<close>

fun optional_dispatch :: "event \<Rightarrow> bool" where
  "optional_dispatch (Dispatched p) = (p \<noteq> MobSF)"
| "optional_dispatch (Settled p) = False"
| "optional_dispatch Assembled = False"

fun optional_settle :: "event \<Rightarrow> bool" where
  "optional_settle (Dispatched p) = False"
| "optional_settle (Settled p) = (p \<noteq> MobSF)"
| "optional_settle Assembled = False"

definition fan_out_fan_in :: "event list \<Rightarrow> bool" where
  "fan_out_fan_in tr =
     (filter optional_dispatch (dropWhile (\<lambda>e. \<not> optional_settle e) tr) = [])"

section \<open>Example runs\<close>

definition example_job :: job_data where
  "example_job = \<lparr> scanId = ''scan-1'', userId = ''user-1'',
                   filePath = ''app-uploads/user-1/app.apk'' \<rparr>"

definition example_row :: "string \<Rightarrow> scan_row" where
  "example_row st = \<lparr> user_id = ''user-1'', file_name = ''app.apk'',
                      file_url = ''app-uploads/user-1/app.apk'', scan_status = st,
                      report_data = None, tf_score = None, pdf_report_url = None \<rparr>"

definition example_world :: "string \<Rightarrow> world" where
  "example_world st = \<lparr> scans = [''scan-1'' \<mapsto> example_row st], queue = [],
                        temp = Map.empty, pdf_reports = Map.empty, trace = [] \<rparr>"

definition example_mobsf :: mobsf_report where
  "example_mobsf = \<lparr> appsec = Some
     \<lparr> high = Some [\<lparr>title = ''h1'', description = ''d1''\<rparr>,
                    \<lparr>title = ''h2'', description = ''d2''\<rparr>],
       medium = Some [\<lparr>title = ''m1'', description = ''d3''\<rparr>],
       low = None \<rparr> \<rparr>"

definition example_vt :: vt_results where
  "example_vt =
     [(''engine01'', \<lparr>category = ''malicious''\<rparr>), (''engine02'', \<lparr>category = ''undetected''\<rparr>),
      (''engine03'', \<lparr>category = ''undetected''\<rparr>), (''engine04'', \<lparr>category = ''undetected''\<rparr>),
      (''engine05'', \<lparr>category = ''harmless''\<rparr>), (''engine06'', \<lparr>category = ''undetected''\<rparr>),
      (''engine07'', \<lparr>category = ''undetected''\<rparr>), (''engine08'', \<lparr>category = ''timeout''\<rparr>),
      (''engine09'', \<lparr>category = ''undetected''\<rparr>), (''engine10'', \<lparr>category = ''undetected''\<rparr>)]"

definition example_md :: md_results where
  "example_md = \<lparr> scan_details = Some [(''engineA'', \<lparr>threat_found = []\<rparr>)] \<rparr>"

definition example_ha :: ha_report where
  "example_ha = \<lparr> verdict = Some ''clean'', threats = Some [] \<rparr>"

text \<open>
  The end-to-end scenario: two high and one medium finding, one malicious engine out of
  ten, a clean sandbox verdict, and the reputation service skipped.
\<close>

definition scenario_bundle :: results where
  "scenario_bundle =
     \<lparr> mobsf = Some (Payload example_mobsf),
       virustotal = Some (Payload example_vt),
       metadefender = Some (Status_obj None True (Some ''File too large'')),
       hybridAnalysis = Some (Payload example_ha) \<rparr>"

text \<open>
  Bundles with results of the AV aggregator only: one engine, named \<open>error\<close>, that
  reports malicious; one ordinary engine that reports malicious; and that engine together
  with a second malicious one named \<open>error\<close>.
\<close>

definition only_virustotal :: "vt_results \<Rightarrow> results" where
  "only_virustotal engines =
     \<lparr> mobsf = None, virustotal = Some (Payload engines),
       metadefender = None, hybridAnalysis = None \<rparr>"

definition error_engine_vt :: vt_results where
  "error_engine_vt = [(''error'', \<lparr>category = ''malicious''\<rparr>)]"

definition one_engine_vt :: vt_results where
  "one_engine_vt = [(''engine01'', \<lparr>category = ''malicious''\<rparr>)]"

definition two_engine_vt :: vt_results where
  "two_engine_vt = [(''engine01'', \<lparr>category = ''malicious''\<rparr>),
                    (''error'', \<lparr>category = ''malicious''\<rparr>)]"

text \<open>A run in which every external call succeeds.\<close>

definition good_env :: processor_env where
  "good_env =
     \<lparr> cwd = ''/app'', mkdir_throws = None,
       getPublicUrl = (\<lambda>p. Some (''https://store/'' @ p)),
       axios_get = (\<lambda>u. Inr (200, ''bytes'')),
       writeFile_throws = None,
       runMobSFScan = (\<lambda>p. Inr example_mobsf),
       runVirusTotalScan = (\<lambda>p. Inr (Some (Payload example_vt))),
       runMetaDefenderScan = (\<lambda>p. Inr (Some (Payload example_md))),
       runHybridAnalysisScan = (\<lambda>p. Inr (Some (Payload example_ha))),
       generatePDFReport = (\<lambda>d. Inr ''pdf''),
       pdfUploadError = False, updateError = False, rm_throws = None,
       failed_write_error = False \<rparr>"

text \<open>The same run with the static analyser failing, and with the sandbox failing.\<close>

definition mobsf_down_env :: processor_env where
  "mobsf_down_env = good_env\<lparr> runMobSFScan := (\<lambda>p. Inl ''MobSF scan failed: timeout'') \<rparr>"

text \<open>The static analyser failing while the store rejects the write of the failed status.\<close>

definition mobsf_and_store_down_env :: processor_env where
  "mobsf_and_store_down_env = mobsf_down_env\<lparr> failed_write_error := True \<rparr>"

definition sandbox_down_env :: processor_env where
  "sandbox_down_env =
     good_env\<lparr> runHybridAnalysisScan := (\<lambda>p. Inl ''Hybrid Analysis scan failed'') \<rparr>"

definition good_service :: service_env where
  "good_service = \<lparr> select_error = False, queue_add_throws = None,
                    status_update_error = False \<rparr>"

definition store_down_service :: service_env where
  "store_down_service = good_service\<lparr> status_update_error := True \<rparr>"

text \<open>
  Poll scripts: a provider that reports failure on the first request and completion on
  the second, and one that reports failure once and stays pending afterwards.
\<close>

definition failed_then_completed :: "nat \<Rightarrow> string vt_poll" where
  "failed_then_completed n =
     (if n = 1 then Vt_status ''failed'' ''none'' else Vt_status ''completed'' ''results'')"

definition failed_then_pending :: "nat \<Rightarrow> string vt_poll" where
  "failed_then_pending n =
     (if n = 1 then Vt_status ''failed'' ''none'' else Vt_status ''queued'' ''none'')"

definition mobsf_failed_then_completed :: "nat \<Rightarrow> logs_response" where
  "mobsf_failed_then_completed n =
     (if n = 1 then Logs [Log_string ''10:00:01 - Scan failed'']
      else Logs [Log_string ''10:00:01 - Scan failed'',
                 Log_string ''10:00:31 - Static Analyzer completed''])"

section \<open>Properties of the scoring engine\<close>

lemma clamp_mono: "(a::int) \<le> b \<Longrightarrow> max 0 (min 100 a) \<le> max 0 (min 100 b)"
  by linarith

lemma score_hybridAnalysis_mono:
  "a \<le> b \<Longrightarrow> score_hybridAnalysis res a \<le> score_hybridAnalysis res b"
  by (simp add: score_hybridAnalysis_def split: option.splits)

lemma score_metadefender_mono:
  "a \<le> b \<Longrightarrow> score_metadefender res a \<le> score_metadefender res b"
  by (simp add: score_metadefender_def split: option.splits)

lemma score_virustotal_mono:
  "a \<le> b \<Longrightarrow> score_virustotal res a \<le> score_virustotal res b"
  by (simp add: score_virustotal_def split: option.splits)

text \<open>Each block reads its own provider's result only.\<close>

lemma blocks_after_mobsf:
  "score_virustotal (res\<lparr>mobsf := x\<rparr>) sc = score_virustotal res sc"
  "score_metadefender (res\<lparr>mobsf := x\<rparr>) sc = score_metadefender res sc"
  "score_hybridAnalysis (res\<lparr>mobsf := x\<rparr>) sc = score_hybridAnalysis res sc"
  by (simp_all add: score_virustotal_def score_metadefender_def score_hybridAnalysis_def)

lemma blocks_around_virustotal:
  "score_mobsf (res\<lparr>virustotal := x\<rparr>) sc = score_mobsf res sc"
  "score_metadefender (res\<lparr>virustotal := x\<rparr>) sc = score_metadefender res sc"
  "score_hybridAnalysis (res\<lparr>virustotal := x\<rparr>) sc = score_hybridAnalysis res sc"
  by (simp_all add: score_mobsf_def score_metadefender_def score_hybridAnalysis_def)

lemma blocks_around_metadefender:
  "score_mobsf (res\<lparr>metadefender := x\<rparr>) sc = score_mobsf res sc"
  "score_virustotal (res\<lparr>metadefender := x\<rparr>) sc = score_virustotal res sc"
  "score_hybridAnalysis (res\<lparr>metadefender := x\<rparr>) sc = score_hybridAnalysis res sc"
  by (simp_all add: score_mobsf_def score_virustotal_def score_hybridAnalysis_def)

lemma blocks_before_hybridAnalysis:
  "score_mobsf (res\<lparr>hybridAnalysis := x\<rparr>) sc = score_mobsf res sc"
  "score_virustotal (res\<lparr>hybridAnalysis := x\<rparr>) sc = score_virustotal res sc"
  "score_metadefender (res\<lparr>hybridAnalysis := x\<rparr>) sc = score_metadefender res sc"
  by (simp_all add: score_mobsf_def score_virustotal_def score_metadefender_def)

lemma calculateTFScore_mono_mobsf:
  assumes "score_mobsf (res\<lparr>mobsf := x'\<rparr>) 100 \<le> score_mobsf (res\<lparr>mobsf := x\<rparr>) 100"
  shows "calculateTFScore (res\<lparr>mobsf := x'\<rparr>) \<le> calculateTFScore (res\<lparr>mobsf := x\<rparr>)"
  unfolding calculateTFScore_def blocks_after_mobsf
  by (intro clamp_mono score_hybridAnalysis_mono score_metadefender_mono score_virustotal_mono)
     (rule assms)

lemma calculateTFScore_mono_virustotal:
  assumes "\<And>sc. score_virustotal (res\<lparr>virustotal := x'\<rparr>) sc
                 \<le> score_virustotal (res\<lparr>virustotal := x\<rparr>) sc"
  shows "calculateTFScore (res\<lparr>virustotal := x'\<rparr>)
           \<le> calculateTFScore (res\<lparr>virustotal := x\<rparr>)"
  unfolding calculateTFScore_def blocks_around_virustotal
  by (intro clamp_mono score_hybridAnalysis_mono score_metadefender_mono) (rule assms)

lemma calculateTFScore_mono_metadefender:
  assumes "\<And>sc. score_metadefender (res\<lparr>metadefender := x'\<rparr>) sc
                 \<le> score_metadefender (res\<lparr>metadefender := x\<rparr>) sc"
  shows "calculateTFScore (res\<lparr>metadefender := x'\<rparr>)
           \<le> calculateTFScore (res\<lparr>metadefender := x\<rparr>)"
  unfolding calculateTFScore_def blocks_around_metadefender
  by (intro clamp_mono score_hybridAnalysis_mono) (rule assms)

lemma calculateTFScore_mono_hybridAnalysis:
  assumes "\<And>sc. score_hybridAnalysis (res\<lparr>hybridAnalysis := x'\<rparr>) sc
                 \<le> score_hybridAnalysis (res\<lparr>hybridAnalysis := x\<rparr>) sc"
  shows "calculateTFScore (res\<lparr>hybridAnalysis := x'\<rparr>)
           \<le> calculateTFScore (res\<lparr>hybridAnalysis := x\<rparr>)"
  unfolding calculateTFScore_def blocks_before_hybridAnalysis
  by (intro clamp_mono) (rule assms)

lemma mono_high:
  "length hs \<le> length hs' \<Longrightarrow>
     calculateTFScore (res\<lparr>mobsf := Some (Payload \<lparr>appsec = Some (a\<lparr>high := Some hs'\<rparr>)\<rparr>)\<rparr>)
   \<le> calculateTFScore (res\<lparr>mobsf := Some (Payload \<lparr>appsec = Some (a\<lparr>high := Some hs\<rparr>)\<rparr>)\<rparr>)"
  by (rule calculateTFScore_mono_mobsf) (simp add: score_mobsf_def or_empty_def)

lemma mono_medium:
  "length ms \<le> length ms' \<Longrightarrow>
     calculateTFScore (res\<lparr>mobsf := Some (Payload \<lparr>appsec = Some (a\<lparr>medium := Some ms'\<rparr>)\<rparr>)\<rparr>)
   \<le> calculateTFScore (res\<lparr>mobsf := Some (Payload \<lparr>appsec = Some (a\<lparr>medium := Some ms\<rparr>)\<rparr>)\<rparr>)"
  by (rule calculateTFScore_mono_mobsf) (simp add: score_mobsf_def or_empty_def)

lemma mono_low:
  "length ls \<le> length ls' \<Longrightarrow>
     calculateTFScore (res\<lparr>mobsf := Some (Payload \<lparr>appsec = Some (a\<lparr>low := Some ls'\<rparr>)\<rparr>)\<rparr>)
   \<le> calculateTFScore (res\<lparr>mobsf := Some (Payload \<lparr>appsec = Some (a\<lparr>low := Some ls\<rparr>)\<rparr>)\<rparr>)"
  by (rule calculateTFScore_mono_mobsf) (simp add: score_mobsf_def or_empty_def)

lemma mono_engines:
  "vt_maliciousCount (Payload e) \<le> vt_maliciousCount (Payload e') \<Longrightarrow> \<not> vt_error e' \<Longrightarrow>
     calculateTFScore (res\<lparr>virustotal := Some (Payload e')\<rparr>)
   \<le> calculateTFScore (res\<lparr>virustotal := Some (Payload e)\<rparr>)"
  by (rule calculateTFScore_mono_virustotal) (simp add: score_virustotal_def)

lemma mono_detections:
  "md_maliciousCount (Payload \<lparr>scan_details = Some d\<rparr>)
     \<le> md_maliciousCount (Payload \<lparr>scan_details = Some d'\<rparr>) \<Longrightarrow>
     calculateTFScore (res\<lparr>metadefender := Some (Payload \<lparr>scan_details = Some d'\<rparr>)\<rparr>)
   \<le> calculateTFScore (res\<lparr>metadefender := Some (Payload \<lparr>scan_details = Some d\<rparr>)\<rparr>)"
  by (rule calculateTFScore_mono_metadefender) (simp add: score_metadefender_def md_error_def)

lemma mono_threats:
  "length ts \<le> length ts' \<Longrightarrow>
     calculateTFScore
       (res\<lparr>hybridAnalysis := Some (Payload \<lparr>verdict = v, threats = Some ts'\<rparr>)\<rparr>)
   \<le> calculateTFScore
       (res\<lparr>hybridAnalysis := Some (Payload \<lparr>verdict = v, threats = Some ts\<rparr>)\<rparr>)"
  by (rule calculateTFScore_mono_hybridAnalysis)
     (simp add: score_hybridAnalysis_def or_empty_def ha_error_def)

lemma status_obj_block:
  "score_mobsf (res\<lparr>mobsf := Some (Status_obj e s r)\<rparr>) sc = sc"
  "score_virustotal (res\<lparr>virustotal := Some (Status_obj e s r)\<rparr>) sc = sc"
  "score_metadefender (res\<lparr>metadefender := Some (Status_obj e s r)\<rparr>) sc = sc"
  "score_hybridAnalysis (res\<lparr>hybridAnalysis := Some (Status_obj e s r)\<rparr>) sc = sc"
  by (simp_all add: score_mobsf_def score_virustotal_def score_metadefender_def
      score_hybridAnalysis_def md_maliciousCount_def)

lemma undefined_block:
  "score_mobsf (res\<lparr>mobsf := None\<rparr>) sc = sc"
  "score_virustotal (res\<lparr>virustotal := None\<rparr>) sc = sc"
  "score_metadefender (res\<lparr>metadefender := None\<rparr>) sc = sc"
  "score_hybridAnalysis (res\<lparr>hybridAnalysis := None\<rparr>) sc = sc"
  by (simp_all add: score_mobsf_def score_virustotal_def score_metadefender_def
      score_hybridAnalysis_def)

text \<open>
  Claim C1, as the code has it. The score starts at 100 and loses 10 per high-severity
  finding of the static analysis, 5 per medium and 2 per low one, 5 per detection of the
  reputation service, 20 for a malicious sandbox verdict or 10 for a suspicious one, and 3
  per sandbox threat; it loses 5 per engine of the AV aggregator that reports malicious,
  unless the aggregator's result has an entry named \<open>error\<close>: the guard
  \<^verbatim>\<open>!results.virustotal.error\<close> then skips the aggregator's deduction
  altogether. The result is clamped below at 0. For the scenario bundle (two high and one
  medium finding, one malicious engine out of ten, a clean sandbox verdict without
  threats, the reputation service skipped) the score is 70, and the recommendations are
  the ones for high and medium findings and for the AV aggregator, without one for the
  sandbox.
\<close>

theorem calculateTFScore_deductions:
  "calculateTFScore
     \<lparr> mobsf = Some (Payload \<lparr> appsec = Some \<lparr> high = Some hs, medium = Some ms, low = Some ls \<rparr> \<rparr>),
       virustotal = Some (Payload engines),
       metadefender = Some (Payload \<lparr> scan_details = Some details \<rparr>),
       hybridAnalysis = Some (Payload \<lparr> verdict = v, threats = Some ts \<rparr>) \<rparr>
   = max 0 (100
       - 10 * int (length hs) - 5 * int (length ms) - 2 * int (length ls)
       - (if ''error'' \<in> set (map fst engines) then 0
          else 5 * int (length (filter (\<lambda>r. category r = ''malicious'') (map snd engines))))
       - 5 * int (length (filter (\<lambda>d. threat_found d \<noteq> []) (map snd details)))
       - (if v = Some ''malicious'' then 20 else if v = Some ''suspicious'' then 10 else 0)
       - 3 * int (length ts))
   \<and> calculateTFScore scenario_bundle = 70
   \<and> generateRecommendations scenario_bundle =
       [''Fix high-severity vulnerabilities immediately.'',
        ''Review and address medium-severity vulnerabilities.'',
        ''Investigate files flagged as malicious by VirusTotal.'']"
proof (intro conjI)
  show "calculateTFScore
     \<lparr> mobsf = Some (Payload \<lparr> appsec = Some \<lparr> high = Some hs, medium = Some ms, low = Some ls \<rparr> \<rparr>),
       virustotal = Some (Payload engines),
       metadefender = Some (Payload \<lparr> scan_details = Some details \<rparr>),
       hybridAnalysis = Some (Payload \<lparr> verdict = v, threats = Some ts \<rparr>) \<rparr>
   = max 0 (100
       - 10 * int (length hs) - 5 * int (length ms) - 2 * int (length ls)
       - (if ''error'' \<in> set (map fst engines) then 0
          else 5 * int (length (filter (\<lambda>r. category r = ''malicious'') (map snd engines))))
       - 5 * int (length (filter (\<lambda>d. threat_found d \<noteq> []) (map snd details)))
       - (if v = Some ''malicious'' then 20 else if v = Some ''suspicious'' then 10 else 0)
       - 3 * int (length ts))"
  proof (cases "''error'' \<in> set (map fst engines)")
    case True
    then show ?thesis
      by (simp add: calculateTFScore_def score_mobsf_def score_virustotal_def
          score_metadefender_def score_hybridAnalysis_def md_maliciousCount_def or_empty_def
          vt_error_def md_error_def ha_error_def)
         linarith
  next
    case False
    then show ?thesis
      by (simp add: calculateTFScore_def score_mobsf_def score_virustotal_def
          score_metadefender_def score_hybridAnalysis_def md_maliciousCount_def or_empty_def
          vt_error_def md_error_def ha_error_def)
         linarith
  qed
  show "calculateTFScore scenario_bundle = 70"
    by (simp add: calculateTFScore_def score_mobsf_def score_virustotal_def
        score_metadefender_def score_hybridAnalysis_def md_maliciousCount_def or_empty_def
        vt_error_def md_error_def ha_error_def
        scenario_bundle_def example_mobsf_def example_vt_def example_ha_def)
  show "generateRecommendations scenario_bundle =
       [''Fix high-severity vulnerabilities immediately.'',
        ''Review and address medium-severity vulnerabilities.'',
        ''Investigate files flagged as malicious by VirusTotal.'']"
    by (simp add: generateRecommendations_def recs_mobsf_def recs_virustotal_def
        recs_metadefender_def recs_hybridAnalysis_def nonempty_opt_def
        scenario_bundle_def example_mobsf_def example_vt_def example_ha_def)
qed

text \<open>
  Claim C1, as stated (5 points are deducted per engine of the AV aggregator that reports
  malicious), fails on a result of the aggregator whose one engine is named \<open>error\<close>
  and reports malicious: the score stays at 100.
\<close>

theorem malicious_engine_named_error_not_deducted:
  "vt_maliciousCount (Payload error_engine_vt) = 1 \<and>
   calculateTFScore (only_virustotal error_engine_vt) = 100"
  by (simp add: calculateTFScore_def score_mobsf_def score_virustotal_def
      score_metadefender_def score_hybridAnalysis_def vt_error_def
      only_virustotal_def error_engine_vt_def)

text \<open>
  Claim C2, as the code has it. The score of every bundle is an integer between 0 and 100,
  and it does not increase when one provider reports more adverse findings (high, medium
  or low findings of the static analysis, malicious engines, detections of the reputation
  service, sandbox threats) while everything else in the bundle stays as it is; for the
  malicious engines of the AV aggregator this holds provided the result with the larger
  count has no entry named \<open>error\<close>.
\<close>

theorem calculateTFScore_bounded_and_monotone:
  "(0 \<le> calculateTFScore res \<and> calculateTFScore res \<le> 100) \<and>
   (length hs \<le> length hs' \<longrightarrow>
      calculateTFScore (res\<lparr>mobsf := Some (Payload \<lparr>appsec = Some (a\<lparr>high := Some hs'\<rparr>)\<rparr>)\<rparr>)
    \<le> calculateTFScore (res\<lparr>mobsf := Some (Payload \<lparr>appsec = Some (a\<lparr>high := Some hs\<rparr>)\<rparr>)\<rparr>)) \<and>
   (length ms \<le> length ms' \<longrightarrow>
      calculateTFScore (res\<lparr>mobsf := Some (Payload \<lparr>appsec = Some (a\<lparr>medium := Some ms'\<rparr>)\<rparr>)\<rparr>)
    \<le> calculateTFScore (res\<lparr>mobsf := Some (Payload \<lparr>appsec = Some (a\<lparr>medium := Some ms\<rparr>)\<rparr>)\<rparr>)) \<and>
   (length ls \<le> length ls' \<longrightarrow>
      calculateTFScore (res\<lparr>mobsf := Some (Payload \<lparr>appsec = Some (a\<lparr>low := Some ls'\<rparr>)\<rparr>)\<rparr>)
    \<le> calculateTFScore (res\<lparr>mobsf := Some (Payload \<lparr>appsec = Some (a\<lparr>low := Some ls\<rparr>)\<rparr>)\<rparr>)) \<and>
   (vt_maliciousCount (Payload e) \<le> vt_maliciousCount (Payload e') \<and>
    ''error'' \<notin> set (map fst e') \<longrightarrow>
      calculateTFScore (res\<lparr>virustotal := Some (Payload e')\<rparr>)
    \<le> calculateTFScore (res\<lparr>virustotal := Some (Payload e)\<rparr>)) \<and>
   (md_maliciousCount (Payload \<lparr>scan_details = Some d\<rparr>)
      \<le> md_maliciousCount (Payload \<lparr>scan_details = Some d'\<rparr>) \<longrightarrow>
      calculateTFScore (res\<lparr>metadefender := Some (Payload \<lparr>scan_details = Some d'\<rparr>)\<rparr>)
    \<le> calculateTFScore (res\<lparr>metadefender := Some (Payload \<lparr>scan_details = Some d\<rparr>)\<rparr>)) \<and>
   (length ts \<le> length ts' \<longrightarrow>
      calculateTFScore
        (res\<lparr>hybridAnalysis := Some (Payload \<lparr>verdict = v, threats = Some ts'\<rparr>)\<rparr>)
    \<le> calculateTFScore
        (res\<lparr>hybridAnalysis := Some (Payload \<lparr>verdict = v, threats = Some ts\<rparr>)\<rparr>))"
proof -
  have engines: "calculateTFScore (res\<lparr>virustotal := Some (Payload e')\<rparr>)
      \<le> calculateTFScore (res\<lparr>virustotal := Some (Payload e)\<rparr>)"
    if "vt_maliciousCount (Payload e) \<le> vt_maliciousCount (Payload e')"
      and "''error'' \<notin> set (map fst e')"
    using that by (intro mono_engines) (simp_all add: vt_error_def)
  have range: "0 \<le> calculateTFScore res \<and> calculateTFScore res \<le> 100"
    by (simp add: calculateTFScore_def)
  show ?thesis
    by (intro conjI impI mono_high mono_medium mono_low mono_detections mono_threats)
       (insert range, auto intro: engines)
qed

text \<open>
  The scenario bundle with one more finding of each kind: every hypothesis of the theorem
  holds there, and each score is at most the scenario's.
\<close>

theorem calculateTFScore_bounded_and_monotone_witness:
  "0 \<le> calculateTFScore scenario_bundle \<and> calculateTFScore scenario_bundle \<le> 100 \<and>
   calculateTFScore (scenario_bundle\<lparr>mobsf := Some (Payload \<lparr>appsec = Some
       \<lparr>high = Some [\<lparr>title = ''h1'', description = ''d1''\<rparr>], medium = None, low = None\<rparr>\<rparr>)\<rparr>)
     \<le> calculateTFScore (scenario_bundle\<lparr>mobsf := Some (Payload \<lparr>appsec = Some
       \<lparr>high = Some [], medium = None, low = None\<rparr>\<rparr>)\<rparr>) \<and>
   calculateTFScore (scenario_bundle\<lparr>mobsf := Some (Payload \<lparr>appsec = Some
       \<lparr>high = None, medium = Some [\<lparr>title = ''m1'', description = ''d1''\<rparr>], low = None\<rparr>\<rparr>)\<rparr>)
     \<le> calculateTFScore (scenario_bundle\<lparr>mobsf := Some (Payload \<lparr>appsec = Some
       \<lparr>high = None, medium = Some [], low = None\<rparr>\<rparr>)\<rparr>) \<and>
   calculateTFScore (scenario_bundle\<lparr>mobsf := Some (Payload \<lparr>appsec = Some
       \<lparr>high = None, medium = None, low = Some [\<lparr>title = ''l1'', description = ''d1''\<rparr>]\<rparr>\<rparr>)\<rparr>)
     \<le> calculateTFScore (scenario_bundle\<lparr>mobsf := Some (Payload \<lparr>appsec = Some
       \<lparr>high = None, medium = None, low = Some []\<rparr>\<rparr>)\<rparr>) \<and>
   ''error'' \<notin> set (map fst
       [(''engine01'', \<lparr>category = ''malicious''\<rparr>), (''engine02'', \<lparr>category = ''malicious''\<rparr>)]) \<and>
   calculateTFScore (scenario_bundle\<lparr>virustotal := Some (Payload
       [(''engine01'', \<lparr>category = ''malicious''\<rparr>), (''engine02'', \<lparr>category = ''malicious''\<rparr>)])\<rparr>)
     \<le> calculateTFScore (scenario_bundle\<lparr>virustotal := Some (Payload
       [(''engine01'', \<lparr>category = ''malicious''\<rparr>)])\<rparr>) \<and>
   calculateTFScore (scenario_bundle\<lparr>metadefender := Some (Payload
       \<lparr>scan_details = Some [(''engineA'', \<lparr>threat_found = ''Trojan''\<rparr>)]\<rparr>)\<rparr>)
     \<le> calculateTFScore (scenario_bundle\<lparr>metadefender := Some (Payload
       \<lparr>scan_details = Some []\<rparr>)\<rparr>) \<and>
   calculateTFScore (scenario_bundle\<lparr>hybridAnalysis := Some (Payload
       \<lparr>verdict = Some ''clean'', threats = Some [''dropper'']\<rparr>)\<rparr>)
     \<le> calculateTFScore (scenario_bundle\<lparr>hybridAnalysis := Some (Payload
       \<lparr>verdict = Some ''clean'', threats = Some []\<rparr>)\<rparr>)"
  using calculateTFScore_bounded_and_monotone
    [where res = scenario_bundle
       and a = "\<lparr>high = None, medium = None, low = None\<rparr>"
       and hs = "[]" and hs' = "[\<lparr>title = ''h1'', description = ''d1''\<rparr>]"
       and ms = "[]" and ms' = "[\<lparr>title = ''m1'', description = ''d1''\<rparr>]"
       and ls = "[]" and ls' = "[\<lparr>title = ''l1'', description = ''d1''\<rparr>]"
       and e = "[(''engine01'', \<lparr>category = ''malicious''\<rparr>)]"
       and e' = "[(''engine01'', \<lparr>category = ''malicious''\<rparr>),
                  (''engine02'', \<lparr>category = ''malicious''\<rparr>)]"
       and d = "[]" and d' = "[(''engineA'', \<lparr>threat_found = ''Trojan''\<rparr>)]"
       and v = "Some ''clean''" and ts = "[]" and ts' = "[''dropper'']"]
  by (simp add: md_maliciousCount_def)

text \<open>
  Claim C2, as stated (the score never rises when the count of malicious engines grows),
  fails: with one malicious engine the score is 95, and with a second malicious engine,
  named \<open>error\<close>, added to the same bundle it is 100.
\<close>

theorem more_malicious_engines_higher_score:
  "vt_maliciousCount (Payload one_engine_vt) < vt_maliciousCount (Payload two_engine_vt) \<and>
   calculateTFScore (only_virustotal one_engine_vt) = 95 \<and>
   calculateTFScore (only_virustotal two_engine_vt) = 100"
  by (simp add: calculateTFScore_def score_mobsf_def score_virustotal_def
      score_metadefender_def score_hybridAnalysis_def vt_error_def
      only_virustotal_def one_engine_vt_def two_engine_vt_def)

text \<open>
  Claim C3. When every provider's outcome is a skip, the score is exactly 100 and no
  recommendation is generated. More generally a failed or skipped outcome of any provider
  deducts nothing: its block leaves the running score as it is, and the score is the one
  of the bundle without that provider.
\<close>

theorem skipped_or_failed_deducts_nothing:
  "calculateTFScore
     \<lparr> mobsf = Some (Status_obj None True r1), virustotal = Some (Status_obj None True r2),
       metadefender = Some (Status_obj None True r3),
       hybridAnalysis = Some (Status_obj None True r4) \<rparr> = 100 \<and>
   generateRecommendations
     \<lparr> mobsf = Some (Status_obj None True r1), virustotal = Some (Status_obj None True r2),
       metadefender = Some (Status_obj None True r3),
       hybridAnalysis = Some (Status_obj None True r4) \<rparr> = [] \<and>
   score_mobsf (res\<lparr>mobsf := Some (Status_obj e s r)\<rparr>) sc = sc \<and>
   score_virustotal (res\<lparr>virustotal := Some (Status_obj e s r)\<rparr>) sc = sc \<and>
   score_metadefender (res\<lparr>metadefender := Some (Status_obj e s r)\<rparr>) sc = sc \<and>
   score_hybridAnalysis (res\<lparr>hybridAnalysis := Some (Status_obj e s r)\<rparr>) sc = sc \<and>
   calculateTFScore (res\<lparr>mobsf := Some (Status_obj e s r)\<rparr>)
     = calculateTFScore (res\<lparr>mobsf := None\<rparr>) \<and>
   calculateTFScore (res\<lparr>virustotal := Some (Status_obj e s r)\<rparr>)
     = calculateTFScore (res\<lparr>virustotal := None\<rparr>) \<and>
   calculateTFScore (res\<lparr>metadefender := Some (Status_obj e s r)\<rparr>)
     = calculateTFScore (res\<lparr>metadefender := None\<rparr>) \<and>
   calculateTFScore (res\<lparr>hybridAnalysis := Some (Status_obj e s r)\<rparr>)
     = calculateTFScore (res\<lparr>hybridAnalysis := None\<rparr>)"
proof -
  have all_skipped: "calculateTFScore
     \<lparr> mobsf = Some (Status_obj None True r1), virustotal = Some (Status_obj None True r2),
       metadefender = Some (Status_obj None True r3),
       hybridAnalysis = Some (Status_obj None True r4) \<rparr> = 100"
    by (simp add: calculateTFScore_def score_mobsf_def score_virustotal_def
        score_metadefender_def score_hybridAnalysis_def md_maliciousCount_def)
  have no_recs: "generateRecommendations
     \<lparr> mobsf = Some (Status_obj None True r1), virustotal = Some (Status_obj None True r2),
       metadefender = Some (Status_obj None True r3),
       hybridAnalysis = Some (Status_obj None True r4) \<rparr> = []"
    by (simp add: generateRecommendations_def recs_mobsf_def recs_virustotal_def
        recs_metadefender_def recs_hybridAnalysis_def)
  have whole:
    "calculateTFScore (res\<lparr>mobsf := Some (Status_obj e s r)\<rparr>)
       = calculateTFScore (res\<lparr>mobsf := None\<rparr>)"
    "calculateTFScore (res\<lparr>virustotal := Some (Status_obj e s r)\<rparr>)
       = calculateTFScore (res\<lparr>virustotal := None\<rparr>)"
    "calculateTFScore (res\<lparr>metadefender := Some (Status_obj e s r)\<rparr>)
       = calculateTFScore (res\<lparr>metadefender := None\<rparr>)"
    "calculateTFScore (res\<lparr>hybridAnalysis := Some (Status_obj e s r)\<rparr>)
       = calculateTFScore (res\<lparr>hybridAnalysis := None\<rparr>)"
    unfolding calculateTFScore_def
    by (simp_all only: status_obj_block undefined_block blocks_after_mobsf
        blocks_around_virustotal blocks_around_metadefender blocks_before_hybridAnalysis)
  show ?thesis
    using all_skipped no_recs whole
    by (simp only: status_obj_block simp_thms)
qed

section \<open>Properties of the poll drivers\<close>

text \<open>A failure status before the last attempt only moves the loop to the next request.\<close>

lemma poll_vt_loop_failed_step:
  assumes "attempts + 1 < vt_maxAttempts"
    and "script (attempts + 1) = Vt_status ''failed'' res"
  shows "poll_vt_loop script attempts = poll_vt_loop script (attempts + 1)"
  using assms by (subst poll_vt_loop.simps) simp

text \<open>A provider that stays pending uses up the attempts and ends in the timeout.\<close>

lemma poll_vt_loop_pending:
  assumes pending: "\<And>n. script n = Vt_status ''queued'' (p n) \<or>
                         script n = Vt_status ''in-progress'' (p n)"
    and "attempts \<le> vt_maxAttempts"
  shows "poll_vt_loop script attempts =
           (Inl ''VirusTotal scan timed out after 30 attempts'', vt_maxAttempts)"
  using assms(2)
proof (induction "vt_maxAttempts - attempts" arbitrary: attempts)
  case 0
  then have "attempts = vt_maxAttempts" by simp
  then show ?case by (subst poll_vt_loop.simps) simp
next
  case (Suc k)
  then have lt: "attempts < vt_maxAttempts" by simp
  have step: "poll_vt_loop script attempts = poll_vt_loop script (attempts + 1)"
    using lt pending[of "attempts + 1"] by (subst poll_vt_loop.simps) auto
  have "poll_vt_loop script (attempts + 1) =
          (Inl ''VirusTotal scan timed out after 30 attempts'', vt_maxAttempts)"
    using Suc.hyps(2) lt by (intro Suc.hyps(1)) simp_all
  with step show ?case by simp
qed

text \<open>
  The first \<open>completed\<close> answer within the attempts returns its payload, whatever the
  earlier answers were.
\<close>

lemma poll_vt_loop_first_completed:
  assumes earlier: "\<And>n r. n < k \<Longrightarrow> script n \<noteq> Vt_status ''completed'' r"
    and fin: "script k = Vt_status ''completed'' res"
    and "attempts < k" and "k \<le> vt_maxAttempts"
  shows "poll_vt_loop script attempts = (Inr res, k)"
  using assms(3)
proof (induction "k - attempts" arbitrary: attempts)
  case 0
  then show ?case by simp
next
  case (Suc d)
  then have lt: "attempts < vt_maxAttempts" using assms(4) by simp
  show ?case
  proof (cases "attempts + 1 = k")
    case True
    then show ?thesis using lt fin by (subst poll_vt_loop.simps) simp
  next
    case False
    then have next_lt: "attempts + 1 < k" using Suc.prems by simp
    then have budget: "attempts + 1 < vt_maxAttempts" using assms(4) by simp
    have step: "poll_vt_loop script attempts = poll_vt_loop script (attempts + 1)"
      using lt budget earlier[OF next_lt]
      by (subst poll_vt_loop.simps) (auto split: vt_poll.splits)
    have "poll_vt_loop script (attempts + 1) = (Inr res, k)"
      using Suc.hyps(2) next_lt by (intro Suc.hyps(1)) simp_all
    with step show ?thesis by simp
  qed
qed

text \<open>
  Claim C4. The poll driver returns the payload on a done signal within the attempts and
  times out when every answer is pending; an explicit failure signal should raise a
  failure at once. The code does not do the last: the error thrown on a failure signal
  is caught by the handler of the same iteration. After a failure on the first request the
  VirusTotal loop returns the payload of the second request, or runs through all 30
  attempts and reports a timeout when the provider stays pending; the MobSF loop returns
  the logs of the second request.
\<close>

theorem poll_failure_signal_is_retried:
  "pollVirusTotalResults failed_then_completed = (Inr ''results'', 2) \<and>
   pollVirusTotalResults failed_then_pending =
     (Inl ''VirusTotal scan timed out after 30 attempts'', 30) \<and>
   pollMobSFScanLogs mobsf_failed_then_completed =
     (Inr [Log_string ''10:00:01 - Scan failed'',
           Log_string ''10:00:31 - Static Analyzer completed''], 2)"
  by code_simp

section \<open>Properties of the scan processor\<close>

lemma fetch_file_frame:
  assumes "fetch_file env job w = (r, w1)"
  shows "scans w1 = scans w" and "queue w1 = queue w" and "pdf_reports w1 = pdf_reports w"
    and "trace w1 = trace w"
  using assms
  by (auto simp: fetch_file_def Let_def split: if_splits option.splits sum.splits prod.splits)

lemma run_optional_frame:
  assumes "run_optional env p rep w = (b, w')"
  shows "scans w' = scans w" and "queue w' = queue w" and "pdf_reports w' = pdf_reports w"
    and "temp w' = temp w"
    and "trace w' = trace w @ [Dispatched VirusTotal, Settled VirusTotal,
            Dispatched MetaDefender, Settled MetaDefender,
            Dispatched HybridAnalysis, Settled HybridAnalysis, Assembled]"
    and "b = \<lparr> mobsf = Some (Payload rep),
               virustotal = settle (runVirusTotalScan env p),
               metadefender = settle (runMetaDefenderScan env p),
               hybridAnalysis = settle (runHybridAnalysisScan env p) \<rparr>"
  using assms
  by (auto simp: run_optional_def Let_def)

lemma finish_scan_trace:
  "trace (snd (finish_scan env job tempDir rep b w)) = trace w"
  by (simp add: finish_scan_def Let_def update_scan_def split: sum.splits option.splits)

lemma update_scan_frame:
  "trace (update_scan sid f w) = trace w"
  "temp (update_scan sid f w) = temp w"
  "queue (update_scan sid f w) = queue w"
  "pdf_reports (update_scan sid f w) = pdf_reports w"
  by (simp_all add: update_scan_def split: option.splits)

lemma example_fetch:
  "fetch_file good_env example_job (example_world st) =
      (Inr (''/app/temp/scan-1'', ''/app/temp/scan-1/app.apk''),
       (example_world st)\<lparr>temp := [''/app/temp/scan-1'' \<mapsto> [''/app/temp/scan-1/app.apk'']]\<rparr>)"
  by (simp add: fetch_file_def good_env_def example_job_def
        example_world_def path_join_def basename_def strip_bucket_def or_empty_def Let_def)

lemma example_fetch_mobsf_down:
  "fetch_file mobsf_down_env example_job (example_world st) =
      (Inr (''/app/temp/scan-1'', ''/app/temp/scan-1/app.apk''),
       (example_world st)\<lparr>temp := [''/app/temp/scan-1'' \<mapsto> [''/app/temp/scan-1/app.apk'']]\<rparr>)"
  by (simp add: fetch_file_def mobsf_down_env_def good_env_def example_job_def
        example_world_def path_join_def basename_def strip_bucket_def or_empty_def Let_def)

lemma processScan_try_success:
  assumes fetch: "fetch_file env job w = (Inr (tempDir, localFilePath), w1)"
    and mob: "runMobSFScan env localFilePath = Inr rep"
    and bdl: "bundle = \<lparr> mobsf = Some (Payload rep),
                   virustotal = settle (runVirusTotalScan env localFilePath),
                   metadefender = settle (runMetaDefenderScan env localFilePath),
                   hybridAnalysis = settle (runHybridAnalysisScan env localFilePath) \<rparr>"
    and pdf: "generatePDFReport env
                \<lparr> pdf_scanId = scanId job, pdf_fileName = basename (filePath job),
                  pdf_tfScore = calculateTFScore bundle, pdf_findings = bundle,
                  pdf_reportData = rep \<rparr> = Inr pdfBuffer"
    and ok: "\<not> pdfUploadError env" "\<not> updateError env" "rm_throws env = None"
  shows "fst (processScan_try env job w) = Inr ()"
    and "scans (snd (processScan_try env job w)) (scanId job) =
           map_option (\<lambda>row. row\<lparr> scan_status := ''completed'',
                                  tf_score := Some (calculateTFScore bundle),
                                  pdf_report_url := Some (userId job @ ''/'' @ scanId job @ ''/'' @
                                     basename_without (filePath job) (extname (filePath job)) @
                                     ''_report.pdf''),
                                  report_data := Some bundle \<rparr>)
             (scans w (scanId job))"
    and "temp (snd (processScan_try env job w)) tempDir = None"
proof -
  obtain b w3 where ro: "run_optional env localFilePath rep
      (w1\<lparr>trace := trace w1 @ [Dispatched MobSF, Settled MobSF]\<rparr>) = (b, w3)"
    by (cases "run_optional env localFilePath rep
      (w1\<lparr>trace := trace w1 @ [Dispatched MobSF, Settled MobSF]\<rparr>)")
  have b: "b = bundle"
    using run_optional_frame(6)[OF ro] bdl by simp
  have sc: "scans w3 = scans w"
    using run_optional_frame(1)[OF ro] fetch_file_frame(1)[OF fetch] by simp
  have try_eq: "processScan_try env job w = finish_scan env job tempDir rep bundle w3"
    using fetch mob ro b by (simp add: processScan_try_def Let_def)
  show "fst (processScan_try env job w) = Inr ()"
    unfolding try_eq using pdf ok by (simp add: finish_scan_def Let_def)
  show "scans (snd (processScan_try env job w)) (scanId job) =
           map_option (\<lambda>row. row\<lparr> scan_status := ''completed'',
                                  tf_score := Some (calculateTFScore bundle),
                                  pdf_report_url := Some (userId job @ ''/'' @ scanId job @ ''/'' @
                                     basename_without (filePath job) (extname (filePath job)) @
                                     ''_report.pdf''),
                                  report_data := Some bundle \<rparr>)
             (scans w (scanId job))"
    unfolding try_eq using pdf ok sc
    by (simp add: finish_scan_def Let_def update_scan_def split: option.splits)
  show "temp (snd (processScan_try env job w)) tempDir = None"
    unfolding try_eq using pdf ok by (simp add: finish_scan_def Let_def)
qed

lemma processScan_of_try_success:
  "fst (processScan_try env job w) = Inr () \<Longrightarrow> processScan env job w = processScan_try env job w"
  by (cases "processScan_try env job w") (auto simp: processScan_def)

text \<open>
  Claim C5. When the file has been fetched, the static analysis succeeds and the report is
  rendered, uploaded and recorded, the job succeeds whatever the optional providers do:
  the record is completed with a bundle that holds, for an optional provider that threw,
  the status object with its error message, and for the others what they returned. With
  exactly one optional provider failing (throwing or, for VirusTotal, also returning its
  own error object) and the other two returning payloads, the bundle has that provider's
  error object and the payloads of the others.
\<close>

theorem optional_provider_failure_contained:
  assumes "fetch_file env job w = (Inr (tempDir, localFilePath), w1)"
    and "runMobSFScan env localFilePath = Inr rep"
    and "bundle = \<lparr> mobsf = Some (Payload rep),
                   virustotal = settle (runVirusTotalScan env localFilePath),
                   metadefender = settle (runMetaDefenderScan env localFilePath),
                   hybridAnalysis = settle (runHybridAnalysisScan env localFilePath) \<rparr>"
    and "generatePDFReport env
                \<lparr> pdf_scanId = scanId job, pdf_fileName = basename (filePath job),
                  pdf_tfScore = calculateTFScore bundle, pdf_findings = bundle,
                  pdf_reportData = rep \<rparr> = Inr pdfBuffer"
    and "\<not> pdfUploadError env" and "\<not> updateError env" and "rm_throws env = None"
  shows "fst (processScan env job w) = Inr () \<and>
         map_option scan_status (scans (snd (processScan env job w)) (scanId job)) =
           map_option (\<lambda>row. ''completed'') (scans w (scanId job)) \<and>
         map_option report_data (scans (snd (processScan env job w)) (scanId job)) =
           map_option (\<lambda>row. Some bundle) (scans w (scanId job)) \<and>
         (runVirusTotalScan env localFilePath = Inl msg \<and>
          runMetaDefenderScan env localFilePath = Inr (Some (Payload md)) \<and>
          runHybridAnalysisScan env localFilePath = Inr (Some (Payload ha)) \<longrightarrow>
            bundle = \<lparr> mobsf = Some (Payload rep),
                       virustotal = Some (Status_obj (Some msg) False None),
                       metadefender = Some (Payload md),
                       hybridAnalysis = Some (Payload ha) \<rparr>) \<and>
         (runVirusTotalScan env localFilePath =
            Inr (Some (Status_obj (Some msg) True (Some ''VirusTotal scan failed''))) \<and>
          runMetaDefenderScan env localFilePath = Inr (Some (Payload md)) \<and>
          runHybridAnalysisScan env localFilePath = Inr (Some (Payload ha)) \<longrightarrow>
            bundle = \<lparr> mobsf = Some (Payload rep),
                       virustotal =
                         Some (Status_obj (Some msg) True (Some ''VirusTotal scan failed'')),
                       metadefender = Some (Payload md),
                       hybridAnalysis = Some (Payload ha) \<rparr>) \<and>
         (runVirusTotalScan env localFilePath = Inr (Some (Payload vt)) \<and>
          runMetaDefenderScan env localFilePath = Inl msg \<and>
          runHybridAnalysisScan env localFilePath = Inr (Some (Payload ha)) \<longrightarrow>
            bundle = \<lparr> mobsf = Some (Payload rep),
                       virustotal = Some (Payload vt),
                       metadefender = Some (Status_obj (Some msg) False None),
                       hybridAnalysis = Some (Payload ha) \<rparr>) \<and>
         (runVirusTotalScan env localFilePath = Inr (Some (Payload vt)) \<and>
          runMetaDefenderScan env localFilePath = Inr (Some (Payload md)) \<and>
          runHybridAnalysisScan env localFilePath = Inl msg \<longrightarrow>
            bundle = \<lparr> mobsf = Some (Payload rep),
                       virustotal = Some (Payload vt),
                       metadefender = Some (Payload md),
                       hybridAnalysis = Some (Status_obj (Some msg) False None) \<rparr>)"
proof -
  note tr = processScan_try_success[OF assms]
  have eq: "processScan env job w = processScan_try env job w"
    by (rule processScan_of_try_success) (rule tr(1))
  have "fst (processScan env job w) = Inr ()"
    using tr(1) eq by simp
  moreover have "map_option scan_status (scans (snd (processScan env job w)) (scanId job)) =
           map_option (\<lambda>row. ''completed'') (scans w (scanId job))"
    unfolding eq tr(2) by (simp add: option.map_comp comp_def)
  moreover have "map_option report_data (scans (snd (processScan env job w)) (scanId job)) =
           map_option (\<lambda>row. Some bundle) (scans w (scanId job))"
    unfolding eq tr(2) by (simp add: option.map_comp comp_def)
  ultimately show ?thesis
    using assms(3) by (simp add: settle_def)
qed

text \<open>The run in which only the sandbox fails.\<close>

theorem optional_provider_failure_contained_witness:
  "fst (processScan sandbox_down_env example_job (example_world ''pending'')) = Inr () \<and>
   map_option scan_status
     (scans (snd (processScan sandbox_down_env example_job (example_world ''pending''))) ''scan-1'')
     = Some ''completed'' \<and>
   map_option report_data
     (scans (snd (processScan sandbox_down_env example_job (example_world ''pending''))) ''scan-1'')
     = Some (Some \<lparr> mobsf = Some (Payload example_mobsf),
                     virustotal = Some (Payload example_vt),
                     metadefender = Some (Payload example_md),
                     hybridAnalysis =
                       Some (Status_obj (Some ''Hybrid Analysis scan failed'') False None) \<rparr>)"
proof -
  let ?combined = "\<lparr> mobsf = Some (Payload example_mobsf),
                     virustotal = Some (Payload example_vt),
                     metadefender = Some (Payload example_md),
                     hybridAnalysis =
                       Some (Status_obj (Some ''Hybrid Analysis scan failed'') False None) \<rparr>"
  have fetch: "fetch_file sandbox_down_env example_job (example_world ''pending'') =
      (Inr (''/app/temp/scan-1'', ''/app/temp/scan-1/app.apk''),
       (example_world ''pending'')\<lparr>temp := [''/app/temp/scan-1'' \<mapsto> [''/app/temp/scan-1/app.apk'']]\<rparr>)"
    by (simp add: fetch_file_def sandbox_down_env_def good_env_def example_job_def
        example_world_def path_join_def basename_def strip_bucket_def or_empty_def Let_def)
  have mob: "runMobSFScan sandbox_down_env ''/app/temp/scan-1/app.apk'' = Inr example_mobsf"
    by (simp add: sandbox_down_env_def good_env_def)
  have bdl: "?combined = \<lparr> mobsf = Some (Payload example_mobsf),
        virustotal = settle (runVirusTotalScan sandbox_down_env ''/app/temp/scan-1/app.apk''),
        metadefender = settle (runMetaDefenderScan sandbox_down_env ''/app/temp/scan-1/app.apk''),
        hybridAnalysis = settle (runHybridAnalysisScan sandbox_down_env ''/app/temp/scan-1/app.apk'') \<rparr>"
    by (simp add: sandbox_down_env_def good_env_def settle_def)
  have pdf: "generatePDFReport sandbox_down_env
       \<lparr> pdf_scanId = scanId example_job, pdf_fileName = basename (filePath example_job),
         pdf_tfScore = calculateTFScore ?combined, pdf_findings = ?combined,
         pdf_reportData = example_mobsf \<rparr> = Inr ''pdf''"
    by (simp add: sandbox_down_env_def good_env_def)
  have ok: "\<not> pdfUploadError sandbox_down_env" "\<not> updateError sandbox_down_env"
      "rm_throws sandbox_down_env = None"
    by (simp_all add: sandbox_down_env_def good_env_def)
  have sid: "scanId example_job = ''scan-1''"
    by (simp add: example_job_def)
  have row: "scans (example_world ''pending'') ''scan-1'' = Some (example_row ''pending'')"
    by (simp add: example_world_def)
  show ?thesis
    using optional_provider_failure_contained[OF fetch mob bdl pdf ok] sid row
    by simp
qed

lemma processScan_try_mobsf_fails:
  assumes fetch: "fetch_file env job w = (Inr (tempDir, localFilePath), w1)"
    and mob: "runMobSFScan env localFilePath = Inl msg"
  shows "processScan_try env job w =
           (Inl msg, w1\<lparr>trace := trace w1 @ [Dispatched MobSF, Settled MobSF]\<rparr>)"
  using fetch mob by (simp add: processScan_try_def Let_def)

text \<open>
  Claim C6, as the code has it. When the static analysis fails, the job ends with that
  error, nothing is added to the report store, and bundle, score and report reference of
  every record stay as they were. The only write to the job record sets its status to
  failed; the code does not look at the store's answer to it, so the status is failed when
  the store applies the write, and the record is unchanged altogether when it does not.
\<close>

theorem mandatory_failure_writes_only_failed_status:
  assumes "fetch_file env job w = (Inr (tempDir, localFilePath), w1)"
    and "runMobSFScan env localFilePath = Inl msg"
  shows "fst (processScan env job w) = Inl msg \<and>
         pdf_reports (snd (processScan env job w)) = pdf_reports w \<and>
         scans (snd (processScan env job w)) =
           (if failed_write_error env then scans w
            else case scans w (scanId job) of
                   None \<Rightarrow> scans w
                 | Some row \<Rightarrow> (scans w)(scanId job \<mapsto> row\<lparr>scan_status := ''failed''\<rparr>)) \<and>
         (\<forall>sid. map_option report_data (scans (snd (processScan env job w)) sid) =
                  map_option report_data (scans w sid) \<and>
                map_option tf_score (scans (snd (processScan env job w)) sid) =
                  map_option tf_score (scans w sid) \<and>
                map_option pdf_report_url (scans (snd (processScan env job w)) sid) =
                  map_option pdf_report_url (scans w sid))"
proof -
  have fr: "scans w1 = scans w" "pdf_reports w1 = pdf_reports w"
    using fetch_file_frame[OF assms(1)] by simp_all
  have eq: "processScan env job w =
      (Inl msg,
       if failed_write_error env
       then w1\<lparr>trace := trace w1 @ [Dispatched MobSF, Settled MobSF]\<rparr>
       else update_scan (scanId job) (\<lambda>row. row\<lparr>scan_status := ''failed''\<rparr>)
              (w1\<lparr>trace := trace w1 @ [Dispatched MobSF, Settled MobSF]\<rparr>))"
    by (simp add: processScan_def processScan_try_mobsf_fails[OF assms])
  show ?thesis
    unfolding eq using fr
    by (auto simp: update_scan_def split: option.splits)
qed

text \<open>The run in which the static analyser is down.\<close>

theorem mandatory_failure_writes_only_failed_status_witness:
  "fst (processScan mobsf_down_env example_job (example_world ''pending''))
     = Inl ''MobSF scan failed: timeout'' \<and>
   pdf_reports (snd (processScan mobsf_down_env example_job (example_world ''pending'')))
     = Map.empty \<and>
   scans (snd (processScan mobsf_down_env example_job (example_world ''pending'')))
     = [''scan-1'' \<mapsto> example_row ''failed'']"
proof -
  note fetch = example_fetch_mobsf_down[of "''pending''"]
  have mob: "runMobSFScan mobsf_down_env ''/app/temp/scan-1/app.apk''
      = Inl ''MobSF scan failed: timeout''"
    by (simp add: mobsf_down_env_def)
  have rest: "\<not> failed_write_error mobsf_down_env" "scanId example_job = ''scan-1''"
    "scans (example_world ''pending'') = [''scan-1'' \<mapsto> example_row ''pending'']"
    "pdf_reports (example_world ''pending'') = Map.empty"
    "(example_row ''pending'')\<lparr>scan_status := ''failed''\<rparr> = example_row ''failed''"
    by (simp_all add: mobsf_down_env_def good_env_def example_job_def example_world_def
        example_row_def)
  show ?thesis
    using mandatory_failure_writes_only_failed_status[OF fetch mob] rest
    by simp
qed

text \<open>
  Claim C6, as stated (the job always ends in the state failed), fails when the store
  rejects the write of the failed status: the job ends with the error of the static
  analysis and its record still says \<open>pending\<close>.
\<close>

theorem failed_status_lost_when_store_rejects_write:
  "fst (processScan mobsf_and_store_down_env example_job (example_world ''pending''))
     = Inl ''MobSF scan failed: timeout'' \<and>
   map_option scan_status
     (scans (snd (processScan mobsf_and_store_down_env example_job (example_world ''pending'')))
        ''scan-1'') = Some ''pending''"
proof -
  have fetch: "fetch_file mobsf_and_store_down_env example_job (example_world ''pending'') =
      (Inr (''/app/temp/scan-1'', ''/app/temp/scan-1/app.apk''),
       (example_world ''pending'')\<lparr>temp := [''/app/temp/scan-1'' \<mapsto> [''/app/temp/scan-1/app.apk'']]\<rparr>)"
    by (simp add: fetch_file_def mobsf_and_store_down_env_def mobsf_down_env_def good_env_def
        example_job_def example_world_def path_join_def basename_def strip_bucket_def
        or_empty_def Let_def)
  have mob: "runMobSFScan mobsf_and_store_down_env ''/app/temp/scan-1/app.apk''
      = Inl ''MobSF scan failed: timeout''"
    by (simp add: mobsf_and_store_down_env_def mobsf_down_env_def)
  have store: "failed_write_error mobsf_and_store_down_env"
    by (simp add: mobsf_and_store_down_env_def)
  have run: "processScan mobsf_and_store_down_env example_job (example_world ''pending'') =
      (Inl ''MobSF scan failed: timeout'',
       (example_world ''pending'')
         \<lparr>temp := [''/app/temp/scan-1'' \<mapsto> [''/app/temp/scan-1/app.apk'']],
          trace := trace (example_world ''pending'') @ [Dispatched MobSF, Settled MobSF]\<rparr>)"
    by (simp add: processScan_def processScan_try_mobsf_fails[OF fetch mob] store)
  show ?thesis
    unfolding run by (simp add: example_world_def example_row_def)
qed

lemma fetch_file_made_dir:
  assumes "scanId job \<noteq> []" and "mkdir_throws env = None"
    and "fetch_file env job w = (r, w1)"
  shows "temp w1 (path_join (path_join (cwd env) ''temp'') (scanId job)) \<noteq> None"
  using assms
  by (auto simp: fetch_file_def Let_def split: if_splits option.splits sum.splits prod.splits)

lemma finish_scan_failure_temp:
  assumes "fst (finish_scan env job tempDir rep b w) = Inl msg"
  shows "temp (snd (finish_scan env job tempDir rep b w)) = temp w"
  using assms
  by (auto simp: finish_scan_def Let_def update_scan_frame split: sum.splits option.splits if_splits)

lemma processScan_try_failure_temp:
  assumes "scanId job \<noteq> []" and "mkdir_throws env = None"
    and "fst (processScan_try env job w) = Inl msg"
  shows "temp (snd (processScan_try env job w))
           (path_join (path_join (cwd env) ''temp'') (scanId job)) \<noteq> None"
proof -
  obtain r w1 where fetch: "fetch_file env job w = (r, w1)"
    by (cases "fetch_file env job w")
  have dir: "temp w1 (path_join (path_join (cwd env) ''temp'') (scanId job)) \<noteq> None"
    by (rule fetch_file_made_dir[OF assms(1,2) fetch])
  show ?thesis
  proof (cases r)
    case (Inl m)
    then show ?thesis using fetch dir by (simp add: processScan_try_def)
  next
    case (Inr p)
    obtain tempDir localFilePath where p: "p = (tempDir, localFilePath)" by (cases p)
    show ?thesis
    proof (cases "runMobSFScan env localFilePath")
      case (Inl m)
      then show ?thesis
        using fetch Inr p dir by (simp add: processScan_try_def Let_def)
    next
      case mob: (Inr rep)
      obtain b w3 where ro: "run_optional env localFilePath rep
          (w1\<lparr>trace := trace w1 @ [Dispatched MobSF, Settled MobSF]\<rparr>) = (b, w3)"
        by (cases "run_optional env localFilePath rep
          (w1\<lparr>trace := trace w1 @ [Dispatched MobSF, Settled MobSF]\<rparr>)")
      have t3: "temp w3 = temp w1"
        using run_optional_frame(4)[OF ro] by simp
      have try_eq: "processScan_try env job w = finish_scan env job tempDir rep b w3"
        using fetch Inr p mob ro by (simp add: processScan_try_def Let_def)
      show ?thesis
        using assms(3) dir t3 unfolding try_eq
        by (simp add: finish_scan_failure_temp)
    qed
  qed
qed

text \<open>
  Claim C8. The temporary directory of a job should be gone when the worker is done, after
  a failure as after a success. The successful run removes it; a run that fails after the
  directory was made does not: the directory is still there when the error is rethrown.
\<close>

theorem failed_job_keeps_temp_dir:
  assumes "scanId job \<noteq> []" and "mkdir_throws env = None"
    and "fst (processScan env job w) = Inl msg"
  shows "temp (snd (processScan env job w))
           (path_join (path_join (cwd env) ''temp'') (scanId job)) \<noteq> None"
proof -
  obtain r w' where t: "processScan_try env job w = (r, w')"
    by (cases "processScan_try env job w")
  have r: "r = Inl msg"
    using assms(3) t by (cases r) (simp_all add: processScan_def)
  have "temp w' (path_join (path_join (cwd env) ''temp'') (scanId job)) \<noteq> None"
    using processScan_try_failure_temp[OF assms(1,2), of w msg] t r by simp
  then show ?thesis
    using t r by (simp add: processScan_def update_scan_frame)
qed

text \<open>The run in which the static analyser is down leaves its directory behind.\<close>

theorem failed_job_keeps_temp_dir_witness:
  "scanId example_job \<noteq> [] \<and> mkdir_throws mobsf_down_env = None \<and>
   fst (processScan mobsf_down_env example_job (example_world ''pending''))
     = Inl ''MobSF scan failed: timeout'' \<and>
   temp (snd (processScan mobsf_down_env example_job (example_world ''pending'')))
     ''/app/temp/scan-1'' \<noteq> None"
proof -
  note fetch = example_fetch_mobsf_down[of "''pending''"]
  have failed: "fst (processScan mobsf_down_env example_job (example_world ''pending''))
     = Inl ''MobSF scan failed: timeout''"
  proof -
    have mob: "runMobSFScan mobsf_down_env ''/app/temp/scan-1/app.apk''
        = Inl ''MobSF scan failed: timeout''"
      by (simp add: mobsf_down_env_def)
    show ?thesis
      by (simp add: processScan_def processScan_try_mobsf_fails[OF fetch mob])
  qed
  have h: "scanId example_job \<noteq> []" "mkdir_throws mobsf_down_env = None"
    by (simp_all add: example_job_def mobsf_down_env_def good_env_def)
  have dir: "path_join (path_join (cwd mobsf_down_env) ''temp'') (scanId example_job)
      = ''/app/temp/scan-1''"
    by (simp add: path_join_def example_job_def mobsf_down_env_def good_env_def)
  show ?thesis
    using failed_job_keeps_temp_dir[OF h failed] h failed dir by simp
qed

lemma processScan_trace:
  "trace (snd (processScan env job w)) = trace (snd (processScan_try env job w))"
  by (cases "processScan_try env job w")
     (auto simp: processScan_def update_scan_frame split: sum.splits)

text \<open>
  Claim C9, as the code has it. The optional providers are not fanned out: each one is
  called and awaited before the next is called, in the order VirusTotal, MetaDefender,
  Hybrid Analysis, after the static analysis has settled; the bundle is assembled once all
  three have settled.
\<close>

theorem optional_providers_run_in_sequence:
  assumes "fetch_file env job w = (Inr (tempDir, localFilePath), w1)"
    and "runMobSFScan env localFilePath = Inr rep"
  shows "trace (snd (processScan env job w)) =
           trace w @ [Dispatched MobSF, Settled MobSF,
                      Dispatched VirusTotal, Settled VirusTotal,
                      Dispatched MetaDefender, Settled MetaDefender,
                      Dispatched HybridAnalysis, Settled HybridAnalysis,
                      Assembled]"
proof -
  obtain b w3 where ro: "run_optional env localFilePath rep
      (w1\<lparr>trace := trace w1 @ [Dispatched MobSF, Settled MobSF]\<rparr>) = (b, w3)"
    by (cases "run_optional env localFilePath rep
      (w1\<lparr>trace := trace w1 @ [Dispatched MobSF, Settled MobSF]\<rparr>)")
  have try_eq: "processScan_try env job w = finish_scan env job tempDir rep b w3"
    using assms ro by (simp add: processScan_try_def Let_def)
  have "trace w3 = trace w @ [Dispatched MobSF, Settled MobSF,
                      Dispatched VirusTotal, Settled VirusTotal,
                      Dispatched MetaDefender, Settled MetaDefender,
                      Dispatched HybridAnalysis, Settled HybridAnalysis,
                      Assembled]"
    using run_optional_frame(5)[OF ro] fetch_file_frame(4)[OF assms(1)] by simp
  then show ?thesis
    by (simp add: processScan_trace try_eq finish_scan_trace)
qed

text \<open>The trace of the run in which every call succeeds.\<close>

theorem optional_providers_run_in_sequence_witness:
  "trace (snd (processScan good_env example_job (example_world ''pending''))) =
     [Dispatched MobSF, Settled MobSF,
      Dispatched VirusTotal, Settled VirusTotal,
      Dispatched MetaDefender, Settled MetaDefender,
      Dispatched HybridAnalysis, Settled HybridAnalysis,
      Assembled]"
proof -
  have mob: "runMobSFScan good_env ''/app/temp/scan-1/app.apk'' = Inr example_mobsf"
    by (simp add: good_env_def)
  have tr: "trace (example_world ''pending'') = []"
    by (simp add: example_world_def)
  show ?thesis
    using optional_providers_run_in_sequence[OF example_fetch mob] tr by simp
qed

text \<open>
  Claim C9, as stated (all optional providers are dispatched before any is awaited), fails
  on the run in which every call succeeds: MetaDefender is dispatched after VirusTotal has
  settled.
\<close>

theorem optional_providers_not_fanned_out:
  "\<not> fan_out_fan_in (trace (snd (processScan good_env example_job (example_world ''pending''))))"
proof -
  have mob: "runMobSFScan good_env ''/app/temp/scan-1/app.apk'' = Inr example_mobsf"
    by (simp add: good_env_def)
  have tr: "trace (example_world ''pending'') = []"
    by (simp add: example_world_def)
  have "trace (snd (processScan good_env example_job (example_world ''pending''))) =
     [Dispatched MobSF, Settled MobSF,
      Dispatched VirusTotal, Settled VirusTotal,
      Dispatched MetaDefender, Settled MetaDefender,
      Dispatched HybridAnalysis, Settled HybridAnalysis,
      Assembled]"
    using processScan_trace[of good_env example_job "example_world ''pending''"] 
    by (simp add: processScan_try_def example_fetch mob Let_def run_optional_def finish_scan_trace tr)
  then show ?thesis
    by (simp add: fan_out_fan_in_def)
qed

section \<open>Properties of the retry operation\<close>

lemma example_select:
  "select_scan ''scan-1'' ''user-1'' (example_world st) = Some (example_row st)"
  by (simp add: select_scan_def example_world_def example_row_def)

text \<open>
  Claim C7, as the code has it. For a scan found for the user, a retry from any status
  other than \<open>failed\<close> is rejected with a bad-request error and changes nothing; a
  retry from \<open>failed\<close>, when the queue and the store accept it, puts the job
  descriptor on the queue and sets the status to \<open>retrying\<close>.
\<close>

theorem retryScan_only_from_failed:
  assumes "\<not> select_error env" and "select_scan sid uid w = Some scan"
  shows "(scan_status scan \<noteq> ''failed'' \<longrightarrow>
            retryScan env sid uid w =
              (Inl (BadRequestException ''Only failed scans can be retried''), w)) \<and>
         (scan_status scan = ''failed'' \<and> queue_add_throws env = None \<and>
          \<not> status_update_error env \<longrightarrow>
            fst (retryScan env sid uid w) =
              Inr \<lparr> message = ''Scan retry initiated successfully'', reply_scanId = sid \<rparr> \<and>
            queue (snd (retryScan env sid uid w)) =
              queue w @ [\<lparr> scanId = sid, userId = user_id scan, filePath = file_url scan \<rparr>] \<and>
            scans (snd (retryScan env sid uid w)) =
              (scans w)(sid \<mapsto> scan\<lparr>scan_status := ''retrying''\<rparr>))"
proof -
  have row: "scans w sid = Some scan"
    using assms(2) by (auto simp: select_scan_def split: option.splits if_splits)
  show ?thesis
    using assms row by (simp add: retryScan_def Let_def update_scan_def)
qed

text \<open>Retries of a pending, a processing, a completed and a failed scan.\<close>

theorem retryScan_only_from_failed_witness:
  "retryScan good_service ''scan-1'' ''user-1'' (example_world ''pending'') =
     (Inl (BadRequestException ''Only failed scans can be retried''), example_world ''pending'') \<and>
   retryScan good_service ''scan-1'' ''user-1'' (example_world ''processing'') =
     (Inl (BadRequestException ''Only failed scans can be retried''), example_world ''processing'') \<and>
   retryScan good_service ''scan-1'' ''user-1'' (example_world ''completed'') =
     (Inl (BadRequestException ''Only failed scans can be retried''), example_world ''completed'') \<and>
   fst (retryScan good_service ''scan-1'' ''user-1'' (example_world ''failed'')) =
     Inr \<lparr> message = ''Scan retry initiated successfully'', reply_scanId = ''scan-1'' \<rparr> \<and>
   queue (snd (retryScan good_service ''scan-1'' ''user-1'' (example_world ''failed''))) =
     [example_job] \<and>
   scans (snd (retryScan good_service ''scan-1'' ''user-1'' (example_world ''failed''))) =
     [''scan-1'' \<mapsto> example_row ''retrying'']"
proof -
  have env: "\<not> select_error good_service" "queue_add_throws good_service = None"
    "\<not> status_update_error good_service"
    by (simp_all add: good_service_def)
  have facts: "scan_status (example_row ''pending'') \<noteq> ''failed''"
    "scan_status (example_row ''processing'') \<noteq> ''failed''"
    "scan_status (example_row ''completed'') \<noteq> ''failed''"
    "scan_status (example_row ''failed'') = ''failed''"
    "queue (example_world ''failed'') = []"
    "scans (example_world ''failed'') = [''scan-1'' \<mapsto> example_row ''failed'']"
    "(example_row ''failed'')\<lparr>scan_status := ''retrying''\<rparr> = example_row ''retrying''"
    "\<lparr> scanId = ''scan-1'', userId = user_id (example_row ''failed''),
       filePath = file_url (example_row ''failed'') \<rparr> = example_job"
    by (simp_all add: example_row_def example_world_def example_job_def)
  have a: "retryScan good_service ''scan-1'' ''user-1'' (example_world ''pending'') =
     (Inl (BadRequestException ''Only failed scans can be retried''), example_world ''pending'')"
    using retryScan_only_from_failed[OF env(1) example_select[of "''pending''"]] facts(1)
    by blast
  have b: "retryScan good_service ''scan-1'' ''user-1'' (example_world ''processing'') =
     (Inl (BadRequestException ''Only failed scans can be retried''), example_world ''processing'')"
    using retryScan_only_from_failed[OF env(1) example_select[of "''processing''"]] facts(2)
    by blast
  have c: "retryScan good_service ''scan-1'' ''user-1'' (example_world ''completed'') =
     (Inl (BadRequestException ''Only failed scans can be retried''), example_world ''completed'')"
    using retryScan_only_from_failed[OF env(1) example_select[of "''completed''"]] facts(3)
    by blast
  have d: "fst (retryScan good_service ''scan-1'' ''user-1'' (example_world ''failed'')) =
         Inr \<lparr> message = ''Scan retry initiated successfully'', reply_scanId = ''scan-1'' \<rparr> \<and>
       queue (snd (retryScan good_service ''scan-1'' ''user-1'' (example_world ''failed''))) =
         queue (example_world ''failed'') @
           [\<lparr> scanId = ''scan-1'', userId = user_id (example_row ''failed''),
              filePath = file_url (example_row ''failed'') \<rparr>] \<and>
       scans (snd (retryScan good_service ''scan-1'' ''user-1'' (example_world ''failed''))) =
         (scans (example_world ''failed''))
           (''scan-1'' \<mapsto> (example_row ''failed'')\<lparr>scan_status := ''retrying''\<rparr>)"
    using retryScan_only_from_failed[OF env(1) example_select[of "''failed''"]] facts(4) env(2,3)
    by blast
  show ?thesis
    using a b c d by (simp add: facts(5-8))
qed

text \<open>
  Claim C7, as stated (an accepted retry takes the status from failed to processing),
  fails: after the accepted retry of a failed scan the status is not \<open>processing\<close>.
\<close>

theorem retry_status_is_not_processing:
  "fst (retryScan good_service ''scan-1'' ''user-1'' (example_world ''failed'')) =
     Inr \<lparr> message = ''Scan retry initiated successfully'', reply_scanId = ''scan-1'' \<rparr> \<and>
   map_option scan_status
     (scans (snd (retryScan good_service ''scan-1'' ''user-1'' (example_world ''failed'')))
        ''scan-1'') \<noteq> Some ''processing''"
proof -
  have row: "scans (example_world ''failed'') ''scan-1'' = Some (example_row ''failed'')"
    by (simp add: example_world_def)
  have st: "scan_status (example_row ''failed'') = ''failed''"
    by (simp add: example_row_def)
  have run: "retryScan good_service ''scan-1'' ''user-1'' (example_world ''failed'') =
      (Inr \<lparr> message = ''Scan retry initiated successfully'', reply_scanId = ''scan-1'' \<rparr>,
       update_scan ''scan-1'' (\<lambda>row. row\<lparr>scan_status := ''retrying''\<rparr>)
         ((example_world ''failed'')\<lparr>queue := queue (example_world ''failed'') @
            [\<lparr> scanId = ''scan-1'', userId = user_id (example_row ''failed''),
               filePath = file_url (example_row ''failed'') \<rparr>]\<rparr>))"
    by (simp add: retryScan_def Let_def example_select st good_service_def)
  show ?thesis
    unfolding run by (simp add: update_scan_def row)
qed

text \<open>
  Claim C10. The retry enqueues the job before it updates the status. For a failed scan,
  when the queue accepts the job and the status update fails, the caller gets an internal
  server error although the job descriptor is on the queue; and when the queue rejects the
  job, the operation ends there with nothing changed.
\<close>

theorem retryScan_enqueues_before_status_update:
  assumes "\<not> select_error env" and "select_scan sid uid w = Some scan"
    and "scan_status scan = ''failed''"
  shows "(queue_add_throws env = None \<and> status_update_error env \<longrightarrow>
            retryScan env sid uid w =
              (Inl (InternalServerErrorException ''Failed to update scan status''),
               w\<lparr>queue := queue w @
                    [\<lparr> scanId = sid, userId = user_id scan, filePath = file_url scan \<rparr>]\<rparr>)) \<and>
         (queue_add_throws env = Some msg \<longrightarrow>
            retryScan env sid uid w = (Inl (Rejected msg), w))"
  using assms by (simp add: retryScan_def Let_def)

text \<open>A retry with the store down, and one with the queue down.\<close>

theorem retryScan_enqueues_before_status_update_witness:
  "retryScan store_down_service ''scan-1'' ''user-1'' (example_world ''failed'') =
     (Inl (InternalServerErrorException ''Failed to update scan status''),
      (example_world ''failed'')\<lparr>queue := [example_job]\<rparr>) \<and>
   retryScan (good_service\<lparr>queue_add_throws := Some ''queue unreachable''\<rparr>)
       ''scan-1'' ''user-1'' (example_world ''failed'') =
     (Inl (Rejected ''queue unreachable''), example_world ''failed'')"
proof -
  have env: "\<not> select_error store_down_service" "queue_add_throws store_down_service = None"
    "status_update_error store_down_service"
    "\<not> select_error (good_service\<lparr>queue_add_throws := Some ''queue unreachable''\<rparr>)"
    "queue_add_throws (good_service\<lparr>queue_add_throws := Some ''queue unreachable''\<rparr>)
       = Some ''queue unreachable''"
    by (simp_all add: good_service_def store_down_service_def)
  have facts: "scan_status (example_row ''failed'') = ''failed''"
    "queue (example_world ''failed'') = []"
    "\<lparr> scanId = ''scan-1'', userId = user_id (example_row ''failed''),
       filePath = file_url (example_row ''failed'') \<rparr> = example_job"
    by (simp_all add: example_row_def example_world_def example_job_def)
  have a: "retryScan store_down_service ''scan-1'' ''user-1'' (example_world ''failed'') =
     (Inl (InternalServerErrorException ''Failed to update scan status''),
      (example_world ''failed'')\<lparr>queue := queue (example_world ''failed'') @
         [\<lparr> scanId = ''scan-1'', userId = user_id (example_row ''failed''),
            filePath = file_url (example_row ''failed'') \<rparr>]\<rparr>)"
    using retryScan_enqueues_before_status_update
            [OF env(1) example_select[of "''failed''"] facts(1)] env(2,3)
    by blast
  have b: "retryScan (good_service\<lparr>queue_add_throws := Some ''queue unreachable''\<rparr>)
       ''scan-1'' ''user-1'' (example_world ''failed'') =
     (Inl (Rejected ''queue unreachable''), example_world ''failed'')"
    using retryScan_enqueues_before_status_update
            [OF env(4) example_select[of "''failed''"] facts(1), of "''queue unreachable''"] env(5)
    by blast
  show ?thesis
    using a b by (simp add: facts(2,3))
qed

end
